theory Spec2Isabelle
  imports Main
begin

section \<open>The shared key-value store (common/redis.ts)\<close>

text \<open>
  The coordination primitives of \<^verbatim>\<open>common/redis.ts\<close> and the dedup marker of the
  marketplace feed are single \<^verbatim>\<open>SET\<close> commands against one key-value store with
  expiry. The store is modelled as a map from key to stored value and optional absolute
  expiry time. Time is the wall clock in milliseconds. A key whose expiry time has passed
  is absent for every command (lazy expiry): a key is expired when the clock is strictly
  greater than its expiry time.
\<close>

type_synonym time = nat

datatype redis_value = Token string | Millis nat

datatype set_condition = NX | XX

datatype reply = OK | Null

datatype redis_error = InvalidExpireTime

type_synonym redis = "string \<Rightarrow> (redis_value \<times> time option) option"

definition live :: "time \<Rightarrow> redis \<Rightarrow> string \<Rightarrow> bool" where
  "live now st key =
     (case st key of
        None \<Rightarrow> False
      | Some (v, None) \<Rightarrow> True
      | Some (v, Some ex) \<Rightarrow> now \<le> ex)"

text \<open>
  \<^verbatim>\<open>redis.set(key, value, "EX", seconds, "NX" | "XX")\<close> and \<^verbatim>\<open>redis.set(key, value, "NX")\<close>:
  one atomic command. \<^verbatim>\<open>NX\<close> writes only if the key is absent, \<^verbatim>\<open>XX\<close> only if it is
  present; a write replaces value and expiry; the reply is \<^verbatim>\<open>"OK"\<close> after a write and
  \<^verbatim>\<open>null\<close> otherwise. An expiry of zero seconds is rejected by the store, and the
  client's promise rejects.
\<close>

definition redis_set ::
  "time \<Rightarrow> string \<Rightarrow> redis_value \<Rightarrow> nat option \<Rightarrow> set_condition \<Rightarrow> redis
     \<Rightarrow> redis_error + (reply \<times> redis)" where
  "redis_set now key v ex cond st =
     (if ex = Some 0 then Inl InvalidExpireTime
      else if (case cond of NX \<Rightarrow> \<not> live now st key | XX \<Rightarrow> live now st key)
      then Inr (OK, st(key \<mapsto> (v, map_option (\<lambda>s. now + s * 1000) ex)))
      else Inr (Null, st))"

definition redis_del :: "string \<Rightarrow> redis \<Rightarrow> redis" where
  "redis_del key st = st(key := None)"

subsection \<open>Locks\<close>

text \<open>
  \<^verbatim>\<open>acquireLock(name, expirationInSeconds = 0)\<close>. The holder token \<^verbatim>\<open>randomUUID()\<close> is
  drawn by the environment and passed in as \<open>uuid\<close>.
\<close>

definition acquireLock ::
  "string \<Rightarrow> time \<Rightarrow> string \<Rightarrow> nat \<Rightarrow> redis \<Rightarrow> redis_error + (bool \<times> redis)" where
  "acquireLock uuid now name expirationInSeconds st =
     (case (if expirationInSeconds \<noteq> 0
            then redis_set now name (Token uuid) (Some expirationInSeconds) NX st
            else redis_set now name (Token uuid) None NX st) of
        Inl e \<Rightarrow> Inl e
      | Inr (acquired, st') \<Rightarrow> Inr (acquired = OK, st'))"

definition extendLock ::
  "string \<Rightarrow> time \<Rightarrow> string \<Rightarrow> nat \<Rightarrow> redis \<Rightarrow> redis_error + (bool \<times> redis)" where
  "extendLock uuid now name expirationInSeconds st =
     (case redis_set now name (Token uuid) (Some expirationInSeconds) XX st of
        Inl e \<Rightarrow> Inl e
      | Inr (extended, st') \<Rightarrow> Inr (extended = OK, st'))"

definition releaseLock :: "string \<Rightarrow> redis \<Rightarrow> redis" where
  "releaseLock name st = redis_del name st"

text \<open>
  A run of acquire calls on one lock name, one atomic command after the other, each with
  its own token, clock reading and expiry argument. The run stops at the first rejected
  command.
\<close>

fun acquireAll ::
  "string \<Rightarrow> (string \<times> time \<times> nat) list \<Rightarrow> redis \<Rightarrow> redis_error + (bool list \<times> redis)" where
  "acquireAll name [] st = Inr ([], st)"
| "acquireAll name ((uuid, now, ttl) # cs) st =
     (case acquireLock uuid now name ttl st of
        Inl e \<Rightarrow> Inl e
      | Inr (b, st') \<Rightarrow>
          (case acquireAll name cs st' of
             Inl e \<Rightarrow> Inl e
           | Inr (bs, st'') \<Rightarrow> Inr (b # bs, st'')))"

definition lockExpiry :: "time \<Rightarrow> nat \<Rightarrow> time option" where
  "lockExpiry now ttl = (if ttl = 0 then None else Some (now + ttl * 1000))"


section \<open>Marketplace feed ingestion (the websocket client of the event stream)\<close>

text \<open>
  Values thrown by the program. Opaque payloads of the feed and of the order SDK that the
  ingestion code only copies are kept as strings.
\<close>

datatype js_error = Thrown string | StoreError redis_error

datatype event_type =
  ITEM_LISTED | ITEM_RECEIVED_BID | COLLECTION_OFFER | TRAIT_OFFER
  | ITEM_METADATA_UPDATED | OTHER_EVENT

record order_parameters =
  endTime :: string
  startTime :: string
  consideration :: string
  offer :: string
  conduitKey :: string
  salt :: string
  zone :: string
  zoneHash :: string
  offerer :: string
  counter :: string
  orderType :: string

record order_components = order_parameters +
  signature :: "string option"

text \<open>
  \<open>parameters = None\<close> is a \<^verbatim>\<open>protocol_data\<close> object without \<^verbatim>\<open>parameters\<close>: reading a
  property of it throws.
\<close>

record protocol_data =
  parameters :: "order_parameters option"
  pd_signature :: "string option"

record payload =
  order_hash :: string
  protocol_data :: "protocol_data option"
  protocol_address :: "string option"
  item_nft_id :: string
  payload_sent_at :: string

record event =
  event_type :: event_type
  payload :: payload
  sent_at :: string

datatype seaport_kind = Seaport | SeaportV14 | SeaportV15

type_synonym opensea_order_params = string

record generic_order_info =
  goi_kind :: seaport_kind
  orderParams :: order_components
  metadata_originatedAt :: string
  isOpenSea :: bool
  goi_openSeaOrderParams :: opensea_order_params
  validateBidValue :: bool
  goi_ingestMethod :: string

datatype log_entry =
  DebugProcessingEvent event
  | WarnProtocolDataMissing payload
  | ErrorParseProtocolData payload js_error
  | InfoFlushed nat nat
  | ErrorEvent event js_error

text \<open>
  What the ingestion code takes from other modules: the chain id of the configuration,
  \<^verbatim>\<open>generateHash\<close>, the four per-kind event handlers (each may throw), the exchange
  address table of the order SDK for the configured chain (an entry may be undefined), and
  the SDK's order constructors (each may throw; the result stands for
  \<^verbatim>\<open>order.params\<close> of the constructed order).
\<close>

record ingest_env =
  chainId :: nat
  generateHash :: "event_type \<Rightarrow> string list \<Rightarrow> string"
  handleItemListedEvent :: "payload \<Rightarrow> js_error + opensea_order_params option"
  handleItemReceivedBidEvent :: "payload \<Rightarrow> js_error + opensea_order_params option"
  handleCollectionOfferEvent :: "payload \<Rightarrow> js_error + opensea_order_params option"
  handleTraitOfferEvent :: "payload \<Rightarrow> js_error + opensea_order_params option"
  exchange :: "seaport_kind \<Rightarrow> string option"
  newOrder :: "seaport_kind \<Rightarrow> nat \<Rightarrow> order_components \<Rightarrow> js_error + order_components"

text \<open>
  The state the callback works on: the store, the module-level \<^verbatim>\<open>bidsEvents\<close> array, the
  bulk submissions made so far to the listings queue and to the orders queue (one list
  per \<^verbatim>\<open>addToQueue\<close> call), and the log.
\<close>

record ingest_state =
  store :: redis
  bidsEvents :: "generic_order_info list"
  openseaListingsQueue :: "generic_order_info list list"
  ordersQueue :: "generic_order_info list list"
  logs :: "log_entry list"

definition maxEventsSize :: "ingest_env \<Rightarrow> nat" where
  "maxEventsSize env = (if chainId env = 1 then 200 else 1)"

definition getEventHash :: "ingest_env \<Rightarrow> event \<Rightarrow> string" where
  "getEventHash env ev =
     (case event_type ev of
        ITEM_METADATA_UPDATED \<Rightarrow>
          generateHash env (event_type ev)
            [item_nft_id (payload ev), payload_sent_at (payload ev)]
      | _ \<Rightarrow> generateHash env (event_type ev) [order_hash (payload ev)])"

definition markerKey :: "ingest_env \<Rightarrow> event \<Rightarrow> string" where
  "markerKey env ev = ''opensea-websocket-event:'' @ getEventHash env ev"

definition isDuplicateEvent ::
  "ingest_env \<Rightarrow> time \<Rightarrow> event \<Rightarrow> redis \<Rightarrow> redis_error + (bool \<times> redis)" where
  "isDuplicateEvent env now ev st =
     (case redis_set now (markerKey env ev) (Millis now) (Some (60 * 5)) NX st of
        Inl e \<Rightarrow> Inl e
      | Inr (setResult, st') \<Rightarrow> Inr (setResult = Null, st'))"

definition handleEvent ::
  "ingest_env \<Rightarrow> event_type \<Rightarrow> payload \<Rightarrow> js_error + opensea_order_params option" where
  "handleEvent env ty p =
     (case ty of
        ITEM_LISTED \<Rightarrow> handleItemListedEvent env p
      | ITEM_RECEIVED_BID \<Rightarrow> handleItemReceivedBidEvent env p
      | COLLECTION_OFFER \<Rightarrow> handleCollectionOfferEvent env p
      | TRAIT_OFFER \<Rightarrow> handleTraitOfferEvent env p
      | _ \<Rightarrow> Inr None)"

definition orderComponentsOf :: "protocol_data \<Rightarrow> order_parameters \<Rightarrow> order_components" where
  "orderComponentsOf pd ps =
     \<lparr> endTime = endTime ps, startTime = startTime ps, consideration = consideration ps,
       offer = offer ps, conduitKey = conduitKey ps, salt = salt ps, zone = zone ps,
       zoneHash = zoneHash ps, offerer = offerer ps, counter = counter ps,
       orderType = orderType ps,
       signature = (case pd_signature pd of
                      None \<Rightarrow> None
                    | Some sg \<Rightarrow> if sg = [] then None else Some sg) \<rparr>"

definition decodeAs ::
  "ingest_env \<Rightarrow> payload \<Rightarrow> seaport_kind \<Rightarrow> order_components
     \<Rightarrow> (seaport_kind \<times> order_components) option \<times> log_entry list" where
  "decodeAs env p k oc =
     (case newOrder env k (chainId env) oc of
        Inl e \<Rightarrow> (None, [ErrorParseProtocolData p e])
      | Inr ps \<Rightarrow> (Some (k, ps), []))"

text \<open>
  \<^verbatim>\<open>parseProtocolData\<close>: the decoded order and its kind, or \<^verbatim>\<open>undefined\<close>, together with
  what the function logs. Everything thrown inside is caught and logged.
\<close>

definition parseProtocolData ::
  "ingest_env \<Rightarrow> payload \<Rightarrow> (seaport_kind \<times> order_components) option \<times> log_entry list" where
  "parseProtocolData env p =
     (case protocol_data p of
        None \<Rightarrow> (None, [WarnProtocolDataMissing p])
      | Some pd \<Rightarrow>
          (case parameters pd of
             None \<Rightarrow> (None, [ErrorParseProtocolData p (Thrown ''TypeError'')])
           | Some ps \<Rightarrow>
               (let protocol = protocol_address p;
                    orderComponents = orderComponentsOf pd ps
                in if protocol = exchange env Seaport
                   then decodeAs env p Seaport orderComponents
                   else if protocol = exchange env SeaportV14
                   then decodeAs env p SeaportV14 orderComponents
                   else if protocol = exchange env SeaportV15
                   then decodeAs env p SeaportV15 orderComponents
                   else (None, []))))"

text \<open>
  Lines 95 to 111 of the callback: push the trigger on \<^verbatim>\<open>bidsEvents\<close>; when the array
  has reached \<^verbatim>\<open>maxEventsSize\<close>, \<^verbatim>\<open>splice(0, bidsEvents.length)\<close> takes the whole array
  out, which is submitted in one \<^verbatim>\<open>addToQueue\<close> call, and the flush is logged with the
  batch size and what is left in the array.
\<close>

definition pushBidsEvent :: "nat \<Rightarrow> generic_order_info \<Rightarrow> ingest_state \<Rightarrow> ingest_state" where
  "pushBidsEvent maxSize orderInfo st =
     (let pushed = bidsEvents st @ [orderInfo]
      in if length pushed \<ge> maxSize
         then (let orderInfoBatch = take (length pushed) pushed;
                   left = drop (length pushed) pushed
               in st\<lparr> bidsEvents := left,
                       ordersQueue := ordersQueue st @ [orderInfoBatch],
                       logs := logs st @ [InfoFlushed (length orderInfoBatch) (length left)] \<rparr>)
         else st\<lparr> bidsEvents := pushed \<rparr>)"

definition orderInfoOf ::
  "event \<Rightarrow> opensea_order_params \<Rightarrow> seaport_kind \<times> order_components \<Rightarrow> generic_order_info" where
  "orderInfoOf ev params pd =
     \<lparr> goi_kind = fst pd, orderParams = snd pd, metadata_originatedAt = sent_at ev,
       isOpenSea = True, goi_openSeaOrderParams = params, validateBidValue = True,
       goi_ingestMethod = ''websocket'' \<rparr>"

text \<open>
  The callback registered with \<^verbatim>\<open>client.onEvents\<close> for the four order event kinds, run
  at clock reading \<open>now\<close>. Whatever is thrown inside is caught and logged.
\<close>

definition onEvents :: "ingest_env \<Rightarrow> time \<Rightarrow> event \<Rightarrow> ingest_state \<Rightarrow> ingest_state" where
  "onEvents env now ev st =
     (case isDuplicateEvent env now ev (store st) of
        Inl e \<Rightarrow> st\<lparr> logs := logs st @ [ErrorEvent ev (StoreError e)] \<rparr>
      | Inr (dup, store') \<Rightarrow>
          (let st1 = st\<lparr> store := store' \<rparr>
           in if dup then st1
              else (let st2 = st1\<lparr> logs := logs st1 @ [DebugProcessingEvent ev] \<rparr>
                    in case handleEvent env (event_type ev) (payload ev) of
                         Inl e \<Rightarrow> st2\<lparr> logs := logs st2 @ [ErrorEvent ev e] \<rparr>
                       | Inr None \<Rightarrow> st2
                       | Inr (Some openSeaOrderParams) \<Rightarrow>
                           (case parseProtocolData env (payload ev) of
                              (None, logged) \<Rightarrow> st2\<lparr> logs := logs st2 @ logged \<rparr>
                            | (Some protocolData, logged) \<Rightarrow>
                                (let st3 = st2\<lparr> logs := logs st2 @ logged \<rparr>;
                                     orderInfo = orderInfoOf ev openSeaOrderParams protocolData
                                 in if event_type ev = ITEM_LISTED
                                    then st3\<lparr> openseaListingsQueue :=
                                                 openseaListingsQueue st3 @ [ [orderInfo] ] \<rparr>
                                    else pushBidsEvent (maxEventsSize env) orderInfo st3)))))"

text \<open>Runs of calls, each with its own clock reading.\<close>

fun isDuplicateEventAll ::
  "ingest_env \<Rightarrow> (time \<times> event) list \<Rightarrow> redis \<Rightarrow> redis_error + (bool list \<times> redis)" where
  "isDuplicateEventAll env [] st = Inr ([], st)"
| "isDuplicateEventAll env ((now, ev) # cs) st =
     (case isDuplicateEvent env now ev st of
        Inl e \<Rightarrow> Inl e
      | Inr (b, st') \<Rightarrow>
          (case isDuplicateEventAll env cs st' of
             Inl e \<Rightarrow> Inl e
           | Inr (bs, st'') \<Rightarrow> Inr (b # bs, st'')))"

fun onEventsAll :: "ingest_env \<Rightarrow> (time \<times> event) list \<Rightarrow> ingest_state \<Rightarrow> ingest_state" where
  "onEventsAll env [] st = st"
| "onEventsAll env ((now, ev) # cs) st = onEventsAll env cs (onEvents env now ev st)"

fun pushBidsEvents :: "nat \<Rightarrow> generic_order_info list \<Rightarrow> ingest_state \<Rightarrow> ingest_state" where
  "pushBidsEvents maxSize [] st = st"
| "pushBidsEvents maxSize (orderInfo # rest) st =
     pushBidsEvents maxSize rest (pushBidsEvent maxSize orderInfo st)"


section \<open>The order-updates-by-id queue and its worker\<close>

subsection \<open>Triggers, order infos and jobs\<close>

datatype order_side = Sell | Buy

datatype ingest_method = Websocket | Rest

record trigger =
  kind :: string
  txHash :: "string option"
  txTimestamp :: "nat option"
  logIndex :: "nat option"
  batchIndex :: "nat option"
  blockHash :: "string option"

record order_info =
  info_context :: string
  info_trigger :: trigger
  info_id :: "string option"
  info_tokenSetId :: "string option"
  info_side :: "order_side option"
  info_ingestMethod :: "ingest_method option"

record job =
  job_name :: string
  job_data :: order_info
  jobId :: string

definition HashZero :: string where
  "HashZero = ''0x'' @ replicate 64 (CHR ''0'')"

text \<open>String concatenation of an optional operand: \<^verbatim>\<open>undefined\<close> prints as its name.\<close>

definition concatString :: "string option \<Rightarrow> string" where
  "concatString s = (case s of None \<Rightarrow> ''undefined'' | Some x \<Rightarrow> x)"

definition sideString :: "order_side \<Rightarrow> string" where
  "sideString sd = (case sd of Sell \<Rightarrow> ''sell'' | Buy \<Rightarrow> ''buy'')"

definition truthy :: "string option \<Rightarrow> bool" where
  "truthy s = (case s of None \<Rightarrow> False | Some x \<Rightarrow> x \<noteq> [])"

definition jobOf :: "order_info \<Rightarrow> job" where
  "jobOf orderInfo =
     \<lparr> job_name =
         (if truthy (info_id orderInfo) then concatString (info_id orderInfo)
          else concatString (info_tokenSetId orderInfo) @ ''-''
               @ concatString (map_option sideString (info_side orderInfo))),
       job_data = orderInfo,
       jobId = info_context orderInfo \<rparr>"

text \<open>
  The queue, as the comments on \<^verbatim>\<open>OrderInfo.context\<close> and on \<^verbatim>\<open>jobId\<close> describe it: the
  job id is the context, and a job whose id the queue still holds, waiting or already
  processed, is ignored. \<open>waiting\<close> are the jobs not yet taken by a worker, \<open>processed\<close>
  the jobs a worker has taken, in the order taken, which the queue keeps. The removal of
  old processed jobs is not part of the model, so the queue holds every job it accepted.
\<close>

record queue =
  waiting :: "job list"
  processed :: "job list"

definition emptyQueue :: queue where
  "emptyQueue = \<lparr> waiting = [], processed = [] \<rparr>"

definition heldIds :: "queue \<Rightarrow> string list" where
  "heldIds q = map jobId (processed q @ waiting q)"

definition addJob :: "queue \<Rightarrow> job \<Rightarrow> queue" where
  "addJob q j = (if jobId j \<in> set (heldIds q) then q else q\<lparr> waiting := waiting q @ [j] \<rparr>)"

definition addBulk :: "job list \<Rightarrow> queue \<Rightarrow> queue" where
  "addBulk js q = foldl addJob q js"

definition addToQueue :: "order_info list \<Rightarrow> queue \<Rightarrow> queue" where
  "addToQueue orderInfos q =
     addBulk (map jobOf (filter (\<lambda>orderInfo. info_id orderInfo \<noteq> Some HashZero) orderInfos)) q"

definition takeNext :: "queue \<Rightarrow> queue" where
  "takeNext q =
     (case waiting q of
        [] \<Rightarrow> q
      | j # js \<Rightarrow> q\<lparr> waiting := js, processed := processed q @ [j] \<rparr>)"

datatype queue_op = Submit "order_info list" | Work

fun runQueue :: "queue_op list \<Rightarrow> queue \<Rightarrow> queue" where
  "runQueue [] q = q"
| "runQueue (Submit orderInfos # ops) q = runQueue ops (addToQueue orderInfos q)"
| "runQueue (Work # ops) q = runQueue ops (takeNext q)"

subsection \<open>Orders, the ledger and the sinks of the worker\<close>

type_synonym buffer = string

text \<open>
  A row of the worker's query: the order joined with one token of its token set. The
  two status columns and the trigger kind are compared with string literals by the code
  and are kept as strings. Timestamps of the row are milliseconds since the epoch.
\<close>

record order_row =
  o_id :: string
  o_side :: order_side
  o_tokenSetId :: string
  o_sourceIdInt :: "nat option"
  o_validBetween :: "string option"
  o_quantityRemaining :: nat
  o_nonce :: string
  o_maker :: buffer
  o_price :: string
  o_value :: string
  o_fillabilityStatus :: string
  o_approvalStatus :: string
  o_kind :: string
  o_dynamic :: "bool option"
  o_currency :: buffer
  o_currency_price :: string
  o_normalized_value :: string
  o_currency_normalized_value :: string
  o_raw_data :: string
  o_originatedAt :: "int option"
  o_createdAt :: int
  o_contract :: buffer
  o_tokenId :: string

datatype order_event_status = Active | Inactive | Filled | Cancelled | Expired

record order_event =
  oe_kind :: string
  oe_status :: order_event_status
  oe_contract :: buffer
  oe_token_id :: string
  oe_order_id :: string
  oe_order_source_id_int :: "nat option"
  oe_order_valid_between :: "string option"
  oe_order_quantity_remaining :: nat
  oe_order_nonce :: string
  oe_maker :: buffer
  oe_price :: string
  oe_tx_hash :: "buffer option"
  oe_tx_timestamp :: "nat option"
  oe_order_kind :: string
  oe_order_token_set_id :: string
  oe_order_dynamic :: "bool option"
  oe_order_currency :: buffer
  oe_order_currency_price :: string
  oe_order_normalized_value :: string
  oe_order_currency_normalized_value :: string
  oe_order_raw_data :: string

record cache_update_info =
  cu_kind :: string
  cu_tokenSetId :: string
  cu_txHash :: "string option"
  cu_txTimestamp :: "nat option"

record nft_balance_info =
  nb_contract :: string
  nb_tokenId :: string
  nb_owner :: string

record bid_event =
  be_order :: order_row
  be_trigger :: trigger

datatype activity_kind = SellOrderCancelled | BuyOrderCancelled | NewSellOrder | NewBuyOrder

record event_data =
  ed_orderId :: string
  ed_orderSourceIdInt :: "nat option"
  ed_contract :: string
  ed_tokenId :: string
  ed_maker :: string
  ed_price :: string
  ed_amount :: nat
  ed_transactionHash :: "string option"
  ed_logIndex :: "nat option"
  ed_batchIndex :: "nat option"
  ed_blockHash :: "string option"
  ed_timestamp :: nat

record event_info =
  ei_kind :: activity_kind
  ei_data :: event_data

datatype websocket_event_kind = SellOrder | BuyOrder

record websocket_event =
  ws_kind :: string
  ws_orderId :: string
  ws_eventKind :: websocket_event_kind

record latency_log =
  ll_latency :: int
  ll_source :: "string option"
  ll_orderId :: string
  ll_orderKind :: string
  ll_orderType :: string
  ll_orderCreatedAt :: int
  ll_orderValidFrom :: int
  ll_orderOriginatedAt :: "int option"
  ll_ingestMethod :: ingest_method

text \<open>
  What the worker takes from other modules: the conversions between buffers and hex
  strings; \<open>validFromMs s\<close> for \<^verbatim>\<open>new Date(JSON.parse(s)[0]).getTime()\<close>, which throws
  (\<open>Inl\<close>), is \<^verbatim>\<open>NaN\<close> (\<open>Inr None\<close>) or a number of milliseconds; and \<open>sourceTitle\<close> for the
  lookup of the order's source and its title, which may throw or be undefined.
\<close>

record worker_env =
  fromBuffer :: "buffer \<Rightarrow> string"
  toBuffer :: "string \<Rightarrow> buffer"
  validFromMs :: "string \<Rightarrow> js_error + int option"
  sourceTitle :: "nat option \<Rightarrow> js_error + string option"

text \<open>
  The world of the worker: the authoritative storage (whether it answers, and the rows
  the order query returns by id), the order-events ledger, and what has been handed to
  each sink, one entry per call.
\<close>

record world =
  storageUp :: bool
  orders :: "string \<Rightarrow> order_row option"
  order_events :: "order_event list"
  topBidQueue :: "cache_update_info list list"
  floorAskQueue :: "cache_update_info list list"
  normalizedFloorAskQueue :: "cache_update_info list list"
  nftBalanceFloorAskQueue :: "nft_balance_info list list"
  bidEventsList :: "bid_event list list"
  activityQueue :: "event_info list list"
  websocketEvents :: "websocket_event list"
  latencyLogs :: "latency_log list"


subsection \<open>The worker\<close>

definition orNull :: "string option \<Rightarrow> string option" where
  "orNull s = (if truthy s then s else None)"

definition orNullNumber :: "nat option \<Rightarrow> nat option" where
  "orNullNumber n = (case n of None \<Rightarrow> None | Some x \<Rightarrow> if x = 0 then None else Some x)"

definition startsWith :: "string \<Rightarrow> string \<Rightarrow> bool" where
  "startsWith s p = (take (length p) s = p)"

text \<open>
  \<^verbatim>\<open>idb.oneOrNone\<close> with the worker's query: the row for the id, none, or a rejection
  when the storage does not answer.
\<close>

definition oneOrNone :: "world \<Rightarrow> string \<Rightarrow> js_error + order_row option" where
  "oneOrNone w i =
     (if storageUp w then Inr (orders w i) else Inl (Thrown ''storage unavailable''))"

definition cacheUpdateInfo :: "trigger \<Rightarrow> string \<Rightarrow> cache_update_info" where
  "cacheUpdateInfo tr tokenSetId =
     \<lparr> cu_kind = kind tr, cu_tokenSetId = tokenSetId,
       cu_txHash = orNull (txHash tr), cu_txTimestamp = orNullNumber (txTimestamp tr) \<rparr>"

text \<open>The \<^verbatim>\<open>CASE\<close> expression of the \<^verbatim>\<open>INSERT INTO order_events\<close> statement.\<close>

definition orderEventStatus :: "string \<Rightarrow> string \<Rightarrow> order_event_status" where
  "orderEventStatus fillabilityStatus approvalStatus =
     (if fillabilityStatus = ''filled'' then Filled
      else if fillabilityStatus = ''cancelled'' then Cancelled
      else if fillabilityStatus = ''expired'' then Expired
      else if fillabilityStatus = ''no-balance'' then Inactive
      else if approvalStatus = ''no-approval'' then Inactive
      else Active)"

definition orderEventOf :: "worker_env \<Rightarrow> trigger \<Rightarrow> order_row \<Rightarrow> order_event" where
  "orderEventOf env tr ord =
     \<lparr> oe_kind = kind tr,
       oe_status = orderEventStatus (o_fillabilityStatus ord) (o_approvalStatus ord),
       oe_contract = o_contract ord,
       oe_token_id = o_tokenId ord,
       oe_order_id = o_id ord,
       oe_order_source_id_int = o_sourceIdInt ord,
       oe_order_valid_between = o_validBetween ord,
       oe_order_quantity_remaining = o_quantityRemaining ord,
       oe_order_nonce = o_nonce ord,
       oe_maker = o_maker ord,
       oe_price = o_value ord,
       oe_tx_hash = (if truthy (txHash tr) then map_option (toBuffer env) (txHash tr) else None),
       oe_tx_timestamp = orNullNumber (txTimestamp tr),
       oe_order_kind = o_kind ord,
       oe_order_token_set_id = o_tokenSetId ord,
       oe_order_dynamic = o_dynamic ord,
       oe_order_currency = o_currency ord,
       oe_order_currency_price = o_currency_price ord,
       oe_order_normalized_value = o_normalized_value ord,
       oe_order_currency_normalized_value = o_currency_normalized_value ord,
       oe_order_raw_data = o_raw_data ord \<rparr>"

definition eventDataOf ::
  "worker_env \<Rightarrow> time \<Rightarrow> trigger \<Rightarrow> order_row \<Rightarrow> string option \<Rightarrow> event_data" where
  "eventDataOf env now tr ord bh =
     \<lparr> ed_orderId = o_id ord,
       ed_orderSourceIdInt = o_sourceIdInt ord,
       ed_contract = fromBuffer env (o_contract ord),
       ed_tokenId = o_tokenId ord,
       ed_maker = fromBuffer env (o_maker ord),
       ed_price = o_price ord,
       ed_amount = o_quantityRemaining ord,
       ed_transactionHash = txHash tr,
       ed_logIndex = logIndex tr,
       ed_batchIndex = batchIndex tr,
       ed_blockHash = bh,
       ed_timestamp = (case orNullNumber (txTimestamp tr) of
                         Some ts \<Rightarrow> ts
                       | None \<Rightarrow> now div 1000) \<rparr>"

text \<open>The value of \<^verbatim>\<open>eventInfo\<close> after lines 505 to 563; \<open>None\<close> is \<^verbatim>\<open>undefined\<close>.\<close>

definition activityEventOf ::
  "worker_env \<Rightarrow> time \<Rightarrow> trigger \<Rightarrow> order_row \<Rightarrow> event_info option" where
  "activityEventOf env now tr ord =
     (if kind tr = ''cancel''
      then Some \<lparr> ei_kind = (case o_side ord of
                               Sell \<Rightarrow> SellOrderCancelled
                             | Buy \<Rightarrow> BuyOrderCancelled),
                  ei_data = eventDataOf env now tr ord (blockHash tr) \<rparr>
      else if kind tr \<in> set [''new-order'', ''reprice'']
              \<and> o_fillabilityStatus ord = ''fillable''
              \<and> o_approvalStatus ord = ''approved''
      then Some \<lparr> ei_kind = (case o_side ord of
                               Sell \<Rightarrow> NewSellOrder
                             | Buy \<Rightarrow> NewBuyOrder),
                  ei_data = eventDataOf env now tr ord None \<rparr>
      else None)"

text \<open>Lines 366 to 394: the recomputation jobs for the resolved side and token set.\<close>

definition recomputeCaches :: "trigger \<Rightarrow> order_side \<Rightarrow> string \<Rightarrow> world \<Rightarrow> world" where
  "recomputeCaches tr side tokenSetId w =
     (case side of
        Buy \<Rightarrow>
          if startsWith tokenSetId ''token'' then w
          else w\<lparr> topBidQueue := topBidQueue w @ [ [cacheUpdateInfo tr tokenSetId] ] \<rparr>
      | Sell \<Rightarrow>
          w\<lparr> floorAskQueue := floorAskQueue w @ [ [cacheUpdateInfo tr tokenSetId] ],
              normalizedFloorAskQueue :=
                normalizedFloorAskQueue w @ [ [cacheUpdateInfo tr tokenSetId] ] \<rparr>)"

text \<open>Lines 396 to 577: what is done with a loaded order.\<close>

definition recordOrder :: "worker_env \<Rightarrow> time \<Rightarrow> trigger \<Rightarrow> order_row \<Rightarrow> world \<Rightarrow> world" where
  "recordOrder env now tr ord w =
     (let w1 = (case o_side ord of
                  Sell \<Rightarrow>
                    w\<lparr> order_events := order_events w @ [orderEventOf env tr ord],
                        nftBalanceFloorAskQueue :=
                          nftBalanceFloorAskQueue w @
                            [ [\<lparr> nb_contract = fromBuffer env (o_contract ord),
                                nb_tokenId = o_tokenId ord,
                                nb_owner = fromBuffer env (o_maker ord) \<rparr>] ] \<rparr>
                | Buy \<Rightarrow>
                    w\<lparr> bidEventsList :=
                          bidEventsList w @
                            [ [\<lparr> be_order = ord\<lparr> o_maker := fromBuffer env (o_maker ord),
                                                 o_currency := fromBuffer env (o_currency ord),
                                                 o_contract := fromBuffer env (o_contract ord) \<rparr>,
                                be_trigger = tr \<rparr>] ] \<rparr>);
          w2 = (case activityEventOf env now tr ord of
                  None \<Rightarrow> w1
                | Some eventInfo \<Rightarrow> w1\<lparr> activityQueue := activityQueue w1 @ [ [eventInfo] ] \<rparr>)
      in w2\<lparr> websocketEvents :=
                websocketEvents w2 @
                  [\<lparr> ws_kind = kind tr, ws_orderId = o_id ord,
                     ws_eventKind = (if o_side ord = Sell then SellOrder else BuyOrder) \<rparr>] \<rparr>)"

text \<open>
  The body of the inner \<^verbatim>\<open>try\<close> of lines 582 to 614: \<open>Inl\<close> when something is thrown,
  \<open>Inr None\<close> when nothing is logged, \<open>Inr (Some l)\<close> when \<open>l\<close> is logged. A \<^verbatim>\<open>NaN\<close> start
  fails the comparison, and \<^verbatim>\<open>toISOString\<close> of an invalid date throws.
\<close>

definition orderTypeOf :: "order_side option \<Rightarrow> string option \<Rightarrow> string" where
  "orderTypeOf side tokenSetId =
     (if side = Some Sell then ''listing''
      else if (case tokenSetId of None \<Rightarrow> False | Some ts \<Rightarrow> startsWith ts ''token'')
      then ''token_offer''
      else if (case tokenSetId of None \<Rightarrow> False | Some ts \<Rightarrow> startsWith ts ''list'')
      then ''attribute_offer''
      else ''collection_offer'')"

definition orderLatency ::
  "worker_env \<Rightarrow> order_info \<Rightarrow> order_row \<Rightarrow> string \<Rightarrow> order_side option \<Rightarrow> string option
     \<Rightarrow> js_error + latency_log option" where
  "orderLatency env job ord validBetween side tokenSetId =
     (case (case o_originatedAt ord of
              Some d \<Rightarrow> Inr (Some d)
            | None \<Rightarrow> validFromMs env validBetween) of
        Inl e \<Rightarrow> Inl e
      | Inr startMs \<Rightarrow>
          (let orderStart = map_option (\<lambda>ms. ms div 1000) startMs;
               orderCreated = o_createdAt ord div 1000
           in case sourceTitle env (o_sourceIdInt ord) of
                Inl e \<Rightarrow> Inl e
              | Inr source \<Rightarrow>
                  (let orderType = orderTypeOf side tokenSetId
                   in case orderStart of
                        None \<Rightarrow> Inr None
                      | Some start \<Rightarrow>
                          if start \<le> orderCreated
                          then (case validFromMs env validBetween of
                                  Inl e \<Rightarrow> Inl e
                                | Inr None \<Rightarrow> Inl (Thrown ''RangeError'')
                                | Inr (Some validFrom) \<Rightarrow>
                                    Inr (Some
                                      \<lparr> ll_latency = orderCreated - start,
                                        ll_source = source,
                                        ll_orderId = o_id ord,
                                        ll_orderKind = o_kind ord,
                                        ll_orderType = orderType,
                                        ll_orderCreatedAt = o_createdAt ord,
                                        ll_orderValidFrom = validFrom,
                                        ll_orderOriginatedAt = o_originatedAt ord,
                                        ll_ingestMethod =
                                          (case info_ingestMethod job of
                                             None \<Rightarrow> Rest
                                           | Some m \<Rightarrow> m) \<rparr>))
                          else Inr None)))"

text \<open>Lines 580 to 618: the latency log, with the empty \<^verbatim>\<open>catch\<close>.\<close>

definition logOrderLatency ::
  "worker_env \<Rightarrow> order_info \<Rightarrow> order_row option \<Rightarrow> order_side option \<Rightarrow> string option
     \<Rightarrow> world \<Rightarrow> world" where
  "logOrderLatency env job order side tokenSetId w =
     (case order of
        None \<Rightarrow> w
      | Some ord \<Rightarrow>
          (case o_validBetween ord of
             None \<Rightarrow> w
           | Some validBetween \<Rightarrow>
               if validBetween \<noteq> [] \<and> kind (info_trigger job) = ''new-order''
               then (case orderLatency env job ord validBetween side tokenSetId of
                       Inl e \<Rightarrow> w
                     | Inr None \<Rightarrow> w
                     | Inr (Some l) \<Rightarrow> w\<lparr> latencyLogs := latencyLogs w @ [l] \<rparr>)
               else w))"

text \<open>
  Lines 324 to 363: the order, the side and the token set the job works with. With an
  order id, side and token set are those of the loaded row, undefined when there is no
  row; without one they are the job's own.
\<close>

definition resolveOrder ::
  "world \<Rightarrow> order_info \<Rightarrow> js_error + (order_row option \<times> order_side option \<times> string option)" where
  "resolveOrder w job =
     (case info_id job of
        None \<Rightarrow> Inr (None, info_side job, info_tokenSetId job)
      | Some i \<Rightarrow>
          if i = [] then Inr (None, info_side job, info_tokenSetId job)
          else (case oneOrNone w i of
                  Inl e \<Rightarrow> Inl e
                | Inr order \<Rightarrow> Inr (order, map_option o_side order, map_option o_tokenSetId order)))"

text \<open>
  The job processor, run at clock reading \<open>now\<close>: \<open>Inl\<close> is a failed job (the error is
  rethrown to the queue), \<open>Inr\<close> the world after a completed job.
\<close>

definition worker :: "worker_env \<Rightarrow> time \<Rightarrow> order_info \<Rightarrow> world \<Rightarrow> js_error + world" where
  "worker env now job w =
     (case resolveOrder w job of
        Inl e \<Rightarrow> Inl e
      | Inr (order, side, tokenSetId) \<Rightarrow>
          (let w1 = (case side of
                       None \<Rightarrow> w
                     | Some sd \<Rightarrow>
                         (case tokenSetId of
                            None \<Rightarrow> w
                          | Some ts \<Rightarrow>
                              if ts = [] then w
                              else (let w' = recomputeCaches (info_trigger job) sd ts w
                                    in case order of
                                         None \<Rightarrow> w'
                                       | Some ord \<Rightarrow>
                                           recordOrder env now (info_trigger job) ord w')))
           in Inr (logOrderLatency env job order side tokenSetId w1)))"

text \<open>
  The status table of the specification, step 4 of the per-job processing, in the
  specification's words.
\<close>

definition specOrderEventStatus :: "string \<Rightarrow> string \<Rightarrow> order_event_status" where
  "specOrderEventStatus fillability approval =
     (if fillability = ''filled'' then Filled
      else if fillability = ''cancelled'' then Cancelled
      else if fillability = ''expired'' then Expired
      else if fillability = ''no-balance'' \<or> approval = ''no-approval'' then Inactive
      else Active)"


section \<open>Example inputs\<close>

text \<open>
  Concrete inputs at which the theorems below are instantiated: a feed on the main
  chain with a hash that joins its arguments, a bid event without protocol data, a sell
  order that was stored on 2023-06-01 00:00:00 UTC and whose validity starts ten
  seconds later, and jobs for that order.
\<close>

definition exampleIngestEnv :: ingest_env where
  "exampleIngestEnv =
     \<lparr> chainId = 1,
       generateHash = (\<lambda>ty parts. concat parts),
       handleItemListedEvent = (\<lambda>p. Inr (Some ''listing'')),
       handleItemReceivedBidEvent = (\<lambda>p. Inr (Some ''bid'')),
       handleCollectionOfferEvent = (\<lambda>p. Inr (Some ''collection-offer'')),
       handleTraitOfferEvent = (\<lambda>p. Inr (Some ''trait-offer'')),
       exchange = (\<lambda>k. case k of
                          Seaport \<Rightarrow> Some ''0x00000000006c3852cbef3e08e8df289169ede581''
                        | SeaportV14 \<Rightarrow> Some ''0x00000000000001ad428e4906ae43d8f9852d0dd6''
                        | SeaportV15 \<Rightarrow> Some ''0x00000000000000adc04c56bf30ac9d3c0aaf14dc''),
       newOrder = (\<lambda>k c oc. Inr oc) \<rparr>"

definition bidEvent :: event where
  "bidEvent =
     \<lparr> event_type = ITEM_RECEIVED_BID,
       payload = \<lparr> order_hash = ''0xbeef'', protocol_data = None,
                   protocol_address = Some ''0x00000000000000adc04c56bf30ac9d3c0aaf14dc'',
                   item_nft_id = [], payload_sent_at = [] \<rparr>,
       sent_at = ''2023-06-01T00:00:00.000000+00:00'' \<rparr>"

definition otherBidEvent :: event where
  "otherBidEvent = bidEvent\<lparr> payload := (payload bidEvent)\<lparr> order_hash := ''0xcafe'' \<rparr> \<rparr>"

definition emptyIngestState :: ingest_state where
  "emptyIngestState =
     \<lparr> store = Map.empty, bidsEvents = [], openseaListingsQueue = [], ordersQueue = [],
       logs = [] \<rparr>"

definition exampleBid :: generic_order_info where
  "exampleBid =
     \<lparr> goi_kind = SeaportV15,
       orderParams =
         \<lparr> endTime = ''1688169600'', startTime = ''1685577600'', consideration = ''[]'',
           offer = ''[]'', conduitKey = ''0x00'', salt = ''1'', zone = ''0x00'',
           zoneHash = ''0x00'', offerer = ''0xaa'', counter = ''0'', orderType = ''0'',
           signature = None \<rparr>,
       metadata_originatedAt = ''2023-06-01T00:00:00.000000+00:00'',
       isOpenSea = True, goi_openSeaOrderParams = ''bid'', validateBidValue = True,
       goi_ingestMethod = ''websocket'' \<rparr>"

definition scheduledWindow :: string where
  "scheduledWindow =
     [CHR ''['', CHR 0x22] @ ''2023-06-01 00:00:10+00'' @ [CHR 0x22, CHR '','', CHR 0x22]
     @ ''2023-07-01 00:00:00+00'' @ [CHR 0x22, CHR '']'']"

definition scheduledOrder :: order_row where
  "scheduledOrder =
     \<lparr> o_id = ''0x01'', o_side = Sell, o_tokenSetId = ''token:0xabc:1'',
       o_sourceIdInt = Some 1, o_validBetween = Some scheduledWindow,
       o_quantityRemaining = 1, o_nonce = ''0'', o_maker = ''aa'', o_price = ''100'',
       o_value = ''100'', o_fillabilityStatus = ''fillable'', o_approvalStatus = ''approved'',
       o_kind = ''seaport-v1.5'', o_dynamic = None, o_currency = ''00'',
       o_currency_price = ''100'', o_normalized_value = ''100'',
       o_currency_normalized_value = ''100'', o_raw_data = ''{}'', o_originatedAt = None,
       o_createdAt = 1685577600000, o_contract = ''abc'', o_tokenId = ''1'' \<rparr>"

definition triggerOf :: "string \<Rightarrow> trigger" where
  "triggerOf k =
     \<lparr> kind = k, txHash = None, txTimestamp = None, logIndex = None, batchIndex = None,
       blockHash = None \<rparr>"

definition jobFor :: "string \<Rightarrow> string \<Rightarrow> order_info" where
  "jobFor k i =
     \<lparr> info_context = k @ ''-'' @ i, info_trigger = triggerOf k, info_id = Some i,
       info_tokenSetId = None, info_side = None, info_ingestMethod = None \<rparr>"

definition exampleEnv :: worker_env where
  "exampleEnv =
     \<lparr> fromBuffer = (\<lambda>b. ''0x'' @ b), toBuffer = drop 2,
       validFromMs = (\<lambda>s. if s = scheduledWindow then Inr (Some 1685577610000)
                           else Inl (Thrown ''SyntaxError'')),
       sourceTitle = (\<lambda>n. Inr (Some ''OpenSea'')) \<rparr>"

definition worldWith :: "order_row \<Rightarrow> world" where
  "worldWith ord =
     \<lparr> storageUp = True, orders = [o_id ord \<mapsto> ord], order_events = [], topBidQueue = [],
       floorAskQueue = [], normalizedFloorAskQueue = [], nftBalanceFloorAskQueue = [],
       bidEventsList = [], activityQueue = [], websocketEvents = [], latencyLogs = [] \<rparr>"

definition revalidationJob :: order_info where
  "revalidationJob =
     \<lparr> info_context = ''revalidation-token:0xabc:1'', info_trigger = triggerOf ''revalidation'',
       info_id = None, info_tokenSetId = Some ''token:0xabc:1'', info_side = Some Sell,
       info_ingestMethod = None \<rparr>"

section \<open>The locks\<close>

lemma acquireLock_eq:
  "acquireLock u t name ttl s =
     Inr (\<not> live t s name,
          if live t s name then s else s(name \<mapsto> (Token u, lockExpiry t ttl)))"
  by (simp add: acquireLock_def redis_set_def lockExpiry_def)

lemma acquireAll_while_held:
  assumes "st name = Some (v, ex)"
    and "list_all (\<lambda>(u, t, ttl). case ex of None \<Rightarrow> True | Some x \<Rightarrow> t \<le> x) cs"
  shows "acquireAll name cs st = Inr (replicate (length cs) False, st)"
  using assms
proof (induction cs)
  case Nil
  then show ?case by simp
next
  case (Cons c cs)
  obtain u t ttl where c: "c = (u, t, ttl)" by (cases c)
  from Cons.prems c have "live t st name"
    by (auto simp: live_def split: option.splits)
  then have "acquireLock u t name ttl st = Inr (False, st)"
    by (simp add: acquireLock_eq)
  moreover from Cons have "acquireAll name cs st = Inr (replicate (length cs) False, st)"
    by simp
  ultimately show ?case using c by simp
qed

lemma filter_replicate_False: "filter (\<lambda>b. b) (replicate n False) = []"
  by (induction n) simp_all

text \<open>
  C5. An acquire call writes the lock key exactly when the key is absent, with an expiry
  when a non-zero number of seconds is given and without one otherwise, and returns true
  exactly when it wrote the key, which then holds the caller's token. Hence, when the
  lock is free at the first of \<open>N\<close> acquire calls on one name and the key neither
  expires nor is released before the last of them, the first call returns true and every
  other call returns false: exactly one call returns true.
\<close>

theorem acquireLock_mutual_exclusion:
  "acquireLock u t name ttl s =
     Inr (\<not> live t s name,
          if live t s name then s else s(name \<mapsto> (Token u, lockExpiry t ttl)))
   \<and> (\<not> live t0 st name
        \<and> list_all (\<lambda>(u', t', ttl'). ttl0 = 0 \<or> t' \<le> t0 + ttl0 * 1000) cs
      \<longrightarrow> (\<exists>bs. acquireAll name ((u0, t0, ttl0) # cs) st =
                  Inr (bs, st(name \<mapsto> (Token u0, lockExpiry t0 ttl0)))
               \<and> bs = True # replicate (length cs) False
               \<and> length (filter (\<lambda>b. b) bs) = 1))"
proof (intro conjI impI)
  show "acquireLock u t name ttl s =
     Inr (\<not> live t s name,
          if live t s name then s else s(name \<mapsto> (Token u, lockExpiry t ttl)))"
    by (rule acquireLock_eq)
next
  assume h: "\<not> live t0 st name
        \<and> list_all (\<lambda>(u', t', ttl'). ttl0 = 0 \<or> t' \<le> t0 + ttl0 * 1000) cs"
  let ?st = "st(name \<mapsto> (Token u0, lockExpiry t0 ttl0))"
  have first: "acquireLock u0 t0 name ttl0 st = Inr (True, ?st)"
    using h by (simp add: acquireLock_eq)
  have "list_all (\<lambda>(u, t, ttl). case lockExpiry t0 ttl0 of None \<Rightarrow> True | Some x \<Rightarrow> t \<le> x) cs"
    using h by (auto simp: lockExpiry_def list_all_iff)
  then have rest: "acquireAll name cs ?st = Inr (replicate (length cs) False, ?st)"
    by (intro acquireAll_while_held) simp_all
  show "\<exists>bs. acquireAll name ((u0, t0, ttl0) # cs) st = Inr (bs, ?st)
               \<and> bs = True # replicate (length cs) False
               \<and> length (filter (\<lambda>b. b) bs) = 1"
    using first rest by (simp add: filter_replicate_False)
qed

theorem acquireLock_mutual_exclusion_witness:
  "\<not> live 1000 Map.empty ''X''
   \<and> list_all (\<lambda>(u' :: string, t', ttl' :: nat). (30::nat) = 0 \<or> t' \<le> 1000 + 30 * 1000)
        [(''b'', 2000::nat, 30::nat), (''c'', 31000, 0)]
   \<and> acquireAll ''X'' [(''a'', 1000, 30), (''b'', 2000, 30), (''c'', 31000, 0)] Map.empty =
       Inr ([True, False, False], [''X'' \<mapsto> (Token ''a'', Some 31000)])"
  using acquireLock_mutual_exclusion
    [where ?t0.0 = 1000 and st = Map.empty and name = "''X''" and ?ttl0.0 = 30
       and cs = "[(''b'', 2000, 30), (''c'', 31000, 0)]" and ?u0.0 = "''a''"]
  by (simp add: live_def lockExpiry_def)

text \<open>
  C10. An extend call succeeds exactly when its expiry argument is non-zero and the key
  is present, and a successful call stores the token generated by that call, with the
  new expiry: whatever token the key held before (the one written by acquire or any
  other) is replaced, and the outcome does not depend on it.
\<close>

theorem extendLock_overwrites_token:
  "(extendLock u t name ttl st = Inr (True, st')) =
     (ttl \<noteq> 0 \<and> live t st name \<and> st' = st(name \<mapsto> (Token u, Some (t + ttl * 1000))))
   \<and> (ttl \<noteq> 0 \<and> live t (st(name \<mapsto> (tok, ex))) name
      \<longrightarrow> extendLock u t name ttl (st(name \<mapsto> (tok, ex))) =
            Inr (True, st(name \<mapsto> (Token u, Some (t + ttl * 1000)))))"
  by (auto simp: extendLock_def redis_set_def)

theorem extendLock_overwrites_token_witness:
  "acquireLock ''a'' 1000 ''X'' 30 Map.empty = Inr (True, [''X'' \<mapsto> (Token ''a'', Some 31000)])
   \<and> (30::nat) \<noteq> 0
   \<and> live 2000 [''X'' \<mapsto> (Token ''a'', Some 31000)] ''X''
   \<and> extendLock ''b'' 2000 ''X'' 30 [''X'' \<mapsto> (Token ''a'', Some 31000)] =
       Inr (True, [''X'' \<mapsto> (Token ''b'', Some 32000)])"
  using extendLock_overwrites_token
    [where u = "''b''" and t = 2000 and name = "''X''" and ttl = 30 and st = Map.empty
       and tok = "Token ''a''" and ex = "Some 31000"]
  by (simp add: live_def acquireLock_eq lockExpiry_def)

section \<open>The dedup marker\<close>

lemma isDuplicateEvent_eq:
  "isDuplicateEvent env t ev st =
     Inr (live t st (markerKey env ev),
          if live t st (markerKey env ev) then st
          else st(markerKey env ev \<mapsto> (Millis t, Some (t + 300000))))"
  by (simp add: isDuplicateEvent_def redis_set_def)

lemma markerKey_eq_iff:
  "(markerKey env ev' = markerKey env ev) = (getEventHash env ev' = getEventHash env ev)"
  by (simp add: markerKey_def)

lemma live_marker:
  "st k = Some (v, Some ex) \<Longrightarrow> t \<le> ex \<Longrightarrow> live t st k"
  by (simp add: live_def)

lemma isDuplicateEventAll_in_window:
  assumes "st k = Some (v, Some ex)"
    and "list_all (\<lambda>(t, ev). t \<le> ex) cs"
  shows "\<exists>bs st'. isDuplicateEventAll env cs st = Inr (bs, st')
           \<and> length bs = length cs
           \<and> st' k = Some (v, Some ex)
           \<and> (\<forall>i < length cs. markerKey env (snd (cs ! i)) = k \<longrightarrow> bs ! i)"
  using assms
proof (induction cs arbitrary: st)
  case Nil
  then show ?case by simp
next
  case (Cons c cs)
  obtain t ev where c: "c = (t, ev)" by (cases c)
  let ?b = "live t st (markerKey env ev)"
  let ?st1 = "if ?b then st else st(markerKey env ev \<mapsto> (Millis t, Some (t + 300000)))"
  from Cons.prems c have lv: "live t st k"
    by (simp add: live_marker)
  then have k1: "?st1 k = Some (v, Some ex)"
    using Cons.prems(1) by auto
  from Cons.prems c have wnd: "list_all (\<lambda>(t, ev). t \<le> ex) cs" by simp
  from Cons.IH [of ?st1] k1 wnd obtain bs st' where
    run: "isDuplicateEventAll env cs ?st1 = Inr (bs, st')"
    and len: "length bs = length cs"
    and kept: "st' k = Some (v, Some ex)"
    and dups: "\<forall>i < length cs. markerKey env (snd (cs ! i)) = k \<longrightarrow> bs ! i"
    by blast
  have step: "isDuplicateEventAll env (c # cs) st = Inr (?b # bs, st')"
    using c run by (simp add: isDuplicateEvent_eq)
  have "\<forall>i < length (c # cs). markerKey env (snd ((c # cs) ! i)) = k \<longrightarrow> (?b # bs) ! i"
  proof (intro allI impI)
    fix i assume i: "i < length (c # cs)" and key: "markerKey env (snd ((c # cs) ! i)) = k"
    show "(?b # bs) ! i"
    proof (cases i)
      case 0
      with key c lv show ?thesis by simp
    next
      case (Suc j)
      with i key dups show ?thesis by simp
    qed
  qed
  with step len kept show ?case by simp
qed

text \<open>
  C3. When no marker for the hash of an event is present, \<open>isDuplicateEvent\<close> reports the
  event as new (it returns false) and creates the marker with an expiry of five minutes.
  In every run of further calls made no later than five minutes after that first call,
  each call for an event with the same hash reports a duplicate (returns true), and so
  does any call after the run inside that window. The first call for the hash after the
  five minutes have passed reports it as new again and creates a fresh marker.
\<close>

theorem isDuplicateEvent_window:
  assumes absent: "\<not> live t0 st (markerKey env ev)"
    and window: "list_all (\<lambda>(t, ev'). t \<le> t0 + 300000) cs"
  shows "\<exists>st1 bs st2.
           isDuplicateEvent env t0 ev st = Inr (False, st1)
         \<and> isDuplicateEventAll env cs st1 = Inr (bs, st2)
         \<and> length bs = length cs
         \<and> (\<forall>i < length cs. getEventHash env (snd (cs ! i)) = getEventHash env ev \<longrightarrow> bs ! i)
         \<and> (\<forall>t ev'. t \<le> t0 + 300000 \<and> getEventHash env ev' = getEventHash env ev
               \<longrightarrow> isDuplicateEvent env t ev' st2 = Inr (True, st2))
         \<and> (\<forall>t ev'. t0 + 300000 < t \<and> getEventHash env ev' = getEventHash env ev
               \<longrightarrow> isDuplicateEvent env t ev' st2 =
                     Inr (False, st2(markerKey env ev' \<mapsto> (Millis t, Some (t + 300000)))))"
proof -
  let ?k = "markerKey env ev"
  let ?st1 = "st(?k \<mapsto> (Millis t0, Some (t0 + 300000)))"
  have first: "isDuplicateEvent env t0 ev st = Inr (False, ?st1)"
    using absent by (simp add: isDuplicateEvent_eq)
  have "?st1 ?k = Some (Millis t0, Some (t0 + 300000))" by simp
  with isDuplicateEventAll_in_window [of ?st1 ?k "Millis t0" "t0 + 300000" cs env] window
  obtain bs st2 where run: "isDuplicateEventAll env cs ?st1 = Inr (bs, st2)"
    and len: "length bs = length cs"
    and kept: "st2 ?k = Some (Millis t0, Some (t0 + 300000))"
    and dups: "\<forall>i < length cs. markerKey env (snd (cs ! i)) = ?k \<longrightarrow> bs ! i"
    by blast
  have inside: "isDuplicateEvent env t ev' st2 = Inr (True, st2)"
    if "t \<le> t0 + 300000 \<and> getEventHash env ev' = getEventHash env ev" for t ev'
  proof -
    from that have "markerKey env ev' = ?k" by (simp add: markerKey_def)
    with kept that have "live t st2 (markerKey env ev')" by (simp add: live_def)
    then show ?thesis by (simp add: isDuplicateEvent_eq)
  qed
  have after: "isDuplicateEvent env t ev' st2 =
                     Inr (False, st2(markerKey env ev' \<mapsto> (Millis t, Some (t + 300000))))"
    if "t0 + 300000 < t \<and> getEventHash env ev' = getEventHash env ev" for t ev'
  proof -
    from that have "markerKey env ev' = ?k" by (simp add: markerKey_def)
    with kept that have "\<not> live t st2 (markerKey env ev')" by (simp add: live_def)
    then show ?thesis by (simp add: isDuplicateEvent_eq)
  qed
  from first run len dups inside after show ?thesis
    by (simp add: markerKey_eq_iff)
qed

theorem isDuplicateEvent_window_witness:
  "\<not> live 1000 Map.empty (markerKey exampleIngestEnv bidEvent)
   \<and> list_all (\<lambda>(t, ev' :: event). t \<le> 1000 + 300000)
        [(2000 :: nat, bidEvent), (3000, otherBidEvent), (301000, bidEvent)]
   \<and> map_sum (\<lambda>e. e) fst
       (isDuplicateEventAll exampleIngestEnv
          [(1000, bidEvent), (2000, bidEvent), (3000, otherBidEvent), (301000, bidEvent),
           (301001, bidEvent)] Map.empty) =
       Inr [False, True, False, True, False]"
proof -
  let ?cs = "[(2000 :: nat, bidEvent), (3000, otherBidEvent), (301000, bidEvent)]"
  have absent: "\<not> live 1000 Map.empty (markerKey exampleIngestEnv bidEvent)"
    by (simp add: live_def)
  have window: "list_all (\<lambda>(t, ev' :: event). t \<le> 1000 + 300000) ?cs"
    by simp
  have run: "map_sum (\<lambda>e. e) fst
       (isDuplicateEventAll exampleIngestEnv
          [(1000, bidEvent), (2000, bidEvent), (3000, otherBidEvent), (301000, bidEvent),
           (301001, bidEvent)] Map.empty) =
       Inr [False, True, False, True, False]"
    by (simp add: isDuplicateEvent_eq live_def markerKey_def getEventHash_def
        exampleIngestEnv_def bidEvent_def otherBidEvent_def)
  from isDuplicateEvent_window [OF absent window] obtain st1 bs st2 where
    "isDuplicateEvent exampleIngestEnv 1000 bidEvent Map.empty = Inr (False, st1)"
    and "isDuplicateEventAll exampleIngestEnv ?cs st1 = Inr (bs, st2)"
    by blast
  with absent window run show ?thesis by simp
qed

section \<open>The feed callback\<close>

lemma maxEventsSize_pos: "0 < maxEventsSize env"
  by (simp add: maxEventsSize_def)

lemma pushBidsEvent_below:
  "length (bidsEvents st) + 1 < m \<Longrightarrow>
     pushBidsEvent m orderInfo st = st\<lparr> bidsEvents := bidsEvents st @ [orderInfo] \<rparr>"
  by (simp add: pushBidsEvent_def)

lemma pushBidsEvent_reaching:
  "m \<le> length (bidsEvents st) + 1 \<Longrightarrow>
     pushBidsEvent m orderInfo st =
       st\<lparr> bidsEvents := [],
           ordersQueue := ordersQueue st @ [bidsEvents st @ [orderInfo] ],
           logs := logs st @ [InfoFlushed (length (bidsEvents st) + 1) 0] \<rparr>"
  by (simp add: pushBidsEvent_def Let_def)

lemma pushBidsEvents_append:
  "pushBidsEvents m (xs @ ys) st = pushBidsEvents m ys (pushBidsEvents m xs st)"
  by (induction xs arbitrary: st) simp_all

lemma pushBidsEvents_below:
  "length (bidsEvents st) + length es < m \<Longrightarrow>
     pushBidsEvents m es st = st\<lparr> bidsEvents := bidsEvents st @ es \<rparr>"
proof (induction es arbitrary: st)
  case Nil
  then show ?case by simp
next
  case (Cons e es)
  then have "pushBidsEvent m e st = st\<lparr> bidsEvents := bidsEvents st @ [e] \<rparr>"
    by (simp add: pushBidsEvent_below)
  moreover have "length (bidsEvents (st\<lparr> bidsEvents := bidsEvents st @ [e] \<rparr>)) + length es < m"
    using Cons.prems by simp
  ultimately show ?case
    using Cons.IH [of "st\<lparr> bidsEvents := bidsEvents st @ [e] \<rparr>"] by simp
qed

lemma isDuplicateEvent_new:
  "\<not> live t (store st) (markerKey env ev) \<Longrightarrow>
     isDuplicateEvent env t ev (store st) =
       Inr (False, (store st)(markerKey env ev \<mapsto> (Millis t, Some (t + 300000))))"
  by (simp add: isDuplicateEvent_eq)

text \<open>
  A new bid-like event that its handler accepts and whose protocol data decodes reaches
  the batch: the callback is the push of its trigger on the buffer.
\<close>

lemma onEvents_bid_event:
  assumes "\<not> live t (store st) (markerKey env ev)"
    and "event_type ev \<noteq> ITEM_LISTED"
    and "handleEvent env (event_type ev) (payload ev) = Inr (Some params)"
    and "parseProtocolData env (payload ev) = (Some pd, logged)"
  shows "onEvents env t ev st =
           pushBidsEvent (maxEventsSize env) (orderInfoOf ev params pd)
             (st\<lparr> store := (store st)(markerKey env ev \<mapsto> (Millis t, Some (t + 300000))),
                  logs := logs st @ [DebugProcessingEvent ev] @ logged \<rparr>)"
  using assms by (simp add: onEvents_def isDuplicateEvent_new Let_def)

text \<open>
  C4. With the size threshold \<open>maxEventsSize\<close> of the configured chain: while the events
  pushed on the buffer leave it shorter than the threshold, nothing is submitted and the
  buffer holds every pushed event; the push that brings the buffer to the threshold makes
  exactly one bulk submission, which holds all buffered events in the order pushed, and
  leaves the buffer empty.
\<close>

theorem pushBidsEvents_flush_at_threshold:
  "(length (bidsEvents st) + length es < maxEventsSize env \<longrightarrow>
      pushBidsEvents (maxEventsSize env) es st = st\<lparr> bidsEvents := bidsEvents st @ es \<rparr>)
   \<and> (length (bidsEvents st) + length es + 1 = maxEventsSize env \<longrightarrow>
        pushBidsEvents (maxEventsSize env) (es @ [orderInfo]) st =
          st\<lparr> bidsEvents := [],
              ordersQueue := ordersQueue st @ [bidsEvents st @ es @ [orderInfo] ],
              logs := logs st @ [InfoFlushed (maxEventsSize env) 0] \<rparr>)"
proof (intro conjI impI)
  assume "length (bidsEvents st) + length es < maxEventsSize env"
  then show "pushBidsEvents (maxEventsSize env) es st = st\<lparr> bidsEvents := bidsEvents st @ es \<rparr>"
    by (rule pushBidsEvents_below)
next
  assume h: "length (bidsEvents st) + length es + 1 = maxEventsSize env"
  then have "pushBidsEvents (maxEventsSize env) es st = st\<lparr> bidsEvents := bidsEvents st @ es \<rparr>"
    by (intro pushBidsEvents_below) simp
  then show "pushBidsEvents (maxEventsSize env) (es @ [orderInfo]) st =
          st\<lparr> bidsEvents := [],
              ordersQueue := ordersQueue st @ [bidsEvents st @ es @ [orderInfo] ],
              logs := logs st @ [InfoFlushed (maxEventsSize env) 0] \<rparr>"
    using h by (simp add: pushBidsEvents_append pushBidsEvent_reaching)
qed

theorem pushBidsEvents_flush_at_threshold_witness:
  "length (bidsEvents emptyIngestState) + length (replicate 199 exampleBid)
     < maxEventsSize exampleIngestEnv
   \<and> length (bidsEvents emptyIngestState) + length (replicate 199 exampleBid) + 1
     = maxEventsSize exampleIngestEnv
   \<and> ordersQueue (pushBidsEvents (maxEventsSize exampleIngestEnv) (replicate 199 exampleBid)
        emptyIngestState) = []
   \<and> length (bidsEvents (pushBidsEvents (maxEventsSize exampleIngestEnv)
        (replicate 199 exampleBid) emptyIngestState)) = 199
   \<and> ordersQueue (pushBidsEvents (maxEventsSize exampleIngestEnv)
        (replicate 199 exampleBid @ [exampleBid]) emptyIngestState) =
       [replicate 199 exampleBid @ [exampleBid] ]
   \<and> bidsEvents (pushBidsEvents (maxEventsSize exampleIngestEnv)
        (replicate 199 exampleBid @ [exampleBid]) emptyIngestState) = []"
  using pushBidsEvents_flush_at_threshold
    [of emptyIngestState "replicate 199 exampleBid" exampleIngestEnv exampleBid]
  by (simp add: emptyIngestState_def exampleIngestEnv_def maxEventsSize_def)

lemma store_pushBidsEvent: "store (pushBidsEvent m oi st) = store st"
  by (simp add: pushBidsEvent_def Let_def)

lemma onEvents_duplicate:
  "live t (store st) (markerKey env ev) \<Longrightarrow> onEvents env t ev st = st"
  by (simp add: onEvents_def isDuplicateEvent_eq)

lemma store_onEvents:
  "store (onEvents env t ev st) =
     (if live t (store st) (markerKey env ev) then store st
      else (store st)(markerKey env ev \<mapsto> (Millis t, Some (t + 300000))))"
  by (simp add: onEvents_def isDuplicateEvent_eq Let_def store_pushBidsEvent
      split: sum.splits option.splits prod.splits)

lemma onEvents_no_decoded_order:
  assumes "fst (parseProtocolData env (payload ev)) = None"
  shows "bidsEvents (onEvents env t ev st) = bidsEvents st
       \<and> ordersQueue (onEvents env t ev st) = ordersQueue st
       \<and> openseaListingsQueue (onEvents env t ev st) = openseaListingsQueue st"
proof -
  from assms obtain logged where "parseProtocolData env (payload ev) = (None, logged)"
    by (cases "parseProtocolData env (payload ev)") simp
  then show ?thesis
    by (simp add: onEvents_def isDuplicateEvent_eq Let_def split: sum.splits option.splits)
qed

lemma decodeAs_throws:
  "isl (newOrder env k (chainId env) oc) \<Longrightarrow> fst (decodeAs env p k oc) = None"
  by (cases "newOrder env k (chainId env) oc") (simp_all add: decodeAs_def)

lemma parseProtocolData_missing:
  "protocol_data p = None \<Longrightarrow> fst (parseProtocolData env p) = None"
  by (simp add: parseProtocolData_def)

lemma parseProtocolData_no_decoder:
  "\<forall>k. protocol_address p \<noteq> exchange env k \<Longrightarrow> fst (parseProtocolData env p) = None"
  by (simp add: parseProtocolData_def Let_def split: option.splits)

lemma parseProtocolData_throws:
  "\<forall>k oc. isl (newOrder env k (chainId env) oc) \<Longrightarrow> fst (parseProtocolData env p) = None"
  by (simp add: parseProtocolData_def Let_def decodeAs_throws split: option.splits)

lemma parseProtocolData_undefined:
  assumes "protocol_data p = None
         \<or> (\<forall>k. protocol_address p \<noteq> exchange env k)
         \<or> (\<forall>k oc. isl (newOrder env k (chainId env) oc))"
  shows "fst (parseProtocolData env p) = None"
  using assms parseProtocolData_missing parseProtocolData_no_decoder parseProtocolData_throws
  by blast

lemma onEventsAll_keeps_marker:
  assumes "store st k = Some (v, Some ex)"
    and "list_all (\<lambda>(t, ev). t \<le> ex) cs"
  shows "store (onEventsAll env cs st) k = Some (v, Some ex)"
  using assms
proof (induction cs arbitrary: st)
  case Nil
  then show ?case by simp
next
  case (Cons c cs)
  obtain t ev where c: "c = (t, ev)" by (cases c)
  with Cons.prems have "live t (store st) k" by (simp add: live_def)
  with Cons.prems(1) have "store (onEvents env t ev st) k = Some (v, Some ex)"
    by (auto simp: store_onEvents)
  moreover from Cons.prems c have "list_all (\<lambda>(t, ev). t \<le> ex) cs" by simp
  ultimately show ?case
    using Cons.IH [of "onEvents env t ev st"] c by simp
qed

text \<open>
  C9. The callback creates the dedup marker of a new event whatever the handlers and
  decoders do with the event afterwards. In particular, when the protocol data is
  missing, when the protocol address is that of no supported exchange, or when every
  order constructor throws, the marker is created although no trigger is buffered or
  submitted. After that, through any run of the callback on further events delivered no
  later than five minutes after the first delivery, a delivery of an event with the same
  marker key inside those five minutes leaves the whole state as it is, whatever handlers
  and decoders it is given: nothing is logged, decoded, buffered or submitted.
\<close>

theorem onEvents_marker_before_decoding:
  assumes absent: "\<not> live t0 (store st) (markerKey env ev)"
    and window: "list_all (\<lambda>(t, ev'). t \<le> t0 + 300000) cs"
  shows "store (onEvents env t0 ev st) =
           (store st)(markerKey env ev \<mapsto> (Millis t0, Some (t0 + 300000)))
       \<and> (protocol_data (payload ev) = None
            \<or> (\<forall>k. protocol_address (payload ev) \<noteq> exchange env k)
            \<or> (\<forall>k oc. isl (newOrder env k (chainId env) oc))
          \<longrightarrow> bidsEvents (onEvents env t0 ev st) = bidsEvents st
              \<and> ordersQueue (onEvents env t0 ev st) = ordersQueue st
              \<and> openseaListingsQueue (onEvents env t0 ev st) = openseaListingsQueue st)
       \<and> (\<forall>env' t ev'. t \<le> t0 + 300000 \<and> markerKey env' ev' = markerKey env ev
            \<longrightarrow> onEvents env' t ev' (onEventsAll env cs (onEvents env t0 ev st)) =
                  onEventsAll env cs (onEvents env t0 ev st))"
proof -
  have first: "store (onEvents env t0 ev st) =
           (store st)(markerKey env ev \<mapsto> (Millis t0, Some (t0 + 300000)))"
    using absent by (simp add: store_onEvents)
  have dropped: "bidsEvents (onEvents env t0 ev st) = bidsEvents st
              \<and> ordersQueue (onEvents env t0 ev st) = ordersQueue st
              \<and> openseaListingsQueue (onEvents env t0 ev st) = openseaListingsQueue st"
    if "protocol_data (payload ev) = None
            \<or> (\<forall>k. protocol_address (payload ev) \<noteq> exchange env k)
            \<or> (\<forall>k oc. isl (newOrder env k (chainId env) oc))"
    using that by (intro onEvents_no_decoded_order parseProtocolData_undefined)
  have again: "onEvents env' t ev' (onEventsAll env cs (onEvents env t0 ev st)) =
                  onEventsAll env cs (onEvents env t0 ev st)"
    if h: "t \<le> t0 + 300000 \<and> markerKey env' ev' = markerKey env ev" for env' t ev'
  proof -
    let ?st2 = "onEventsAll env cs (onEvents env t0 ev st)"
    from first have "store (onEvents env t0 ev st) (markerKey env ev) =
        Some (Millis t0, Some (t0 + 300000))"
      by simp
    from onEventsAll_keeps_marker [OF this window]
    have "store ?st2 (markerKey env ev) = Some (Millis t0, Some (t0 + 300000))" .
    with h have "live t (store ?st2) (markerKey env' ev')"
      by (simp add: live_def)
    then show ?thesis
      by (rule onEvents_duplicate)
  qed
  from first dropped again show ?thesis by blast
qed

theorem onEvents_marker_before_decoding_witness:
  "\<not> live 1000 (store emptyIngestState) (markerKey exampleIngestEnv bidEvent)
   \<and> list_all (\<lambda>(t, ev' :: event). t \<le> 1000 + 300000) [(2000 :: nat, otherBidEvent)]
   \<and> protocol_data (payload bidEvent) = None
   \<and> store (onEvents exampleIngestEnv 1000 bidEvent emptyIngestState)
       (markerKey exampleIngestEnv bidEvent) = Some (Millis 1000, Some 301000)
   \<and> bidsEvents (onEvents exampleIngestEnv 1000 bidEvent emptyIngestState) = []
   \<and> ordersQueue (onEvents exampleIngestEnv 1000 bidEvent emptyIngestState) = []
   \<and> onEvents exampleIngestEnv 301000 bidEvent
       (onEventsAll exampleIngestEnv [(2000, otherBidEvent)]
          (onEvents exampleIngestEnv 1000 bidEvent emptyIngestState)) =
     onEventsAll exampleIngestEnv [(2000, otherBidEvent)]
       (onEvents exampleIngestEnv 1000 bidEvent emptyIngestState)"
proof -
  have absent: "\<not> live 1000 (store emptyIngestState) (markerKey exampleIngestEnv bidEvent)"
    by (simp add: live_def emptyIngestState_def)
  have window: "list_all (\<lambda>(t, ev' :: event). t \<le> 1000 + 300000) [(2000 :: nat, otherBidEvent)]"
    by simp
  have missing: "protocol_data (payload bidEvent) = None"
    by (simp add: bidEvent_def)
  have empty: "bidsEvents emptyIngestState = []" "ordersQueue emptyIngestState = []"
    by (simp_all add: emptyIngestState_def)
  from onEvents_marker_before_decoding [OF absent window] missing empty
  have "store (onEvents exampleIngestEnv 1000 bidEvent emptyIngestState)
       (markerKey exampleIngestEnv bidEvent) = Some (Millis 1000, Some 301000)"
    and "bidsEvents (onEvents exampleIngestEnv 1000 bidEvent emptyIngestState) = []"
    and "ordersQueue (onEvents exampleIngestEnv 1000 bidEvent emptyIngestState) = []"
    and "onEvents exampleIngestEnv 301000 bidEvent
       (onEventsAll exampleIngestEnv [(2000, otherBidEvent)]
          (onEvents exampleIngestEnv 1000 bidEvent emptyIngestState)) =
     onEventsAll exampleIngestEnv [(2000, otherBidEvent)]
       (onEvents exampleIngestEnv 1000 bidEvent emptyIngestState)"
    by simp_all
  with absent window missing show ?thesis by simp
qed

section \<open>The queue\<close>

lemma processed_addJob: "processed (addJob q j) = processed q"
  by (simp add: addJob_def)

lemma heldIds_addJob:
  "set (heldIds (addJob q j)) = insert (jobId j) (set (heldIds q))"
  by (auto simp: addJob_def heldIds_def)

lemma distinct_heldIds_addJob:
  "distinct (heldIds q) \<Longrightarrow> distinct (heldIds (addJob q j))"
  by (auto simp: addJob_def heldIds_def)

lemma waiting_addJob_subset:
  "set (waiting (addJob q j)) \<subseteq> insert j (set (waiting q))"
  by (auto simp: addJob_def)

lemma waiting_addJob_held:
  "c \<in> set (heldIds q) \<Longrightarrow>
     filter (\<lambda>j. jobId j = c) (waiting (addJob q j')) = filter (\<lambda>j. jobId j = c) (waiting q)"
  by (auto simp: addJob_def)

lemma processed_addBulk: "processed (addBulk js q) = processed q"
  unfolding addBulk_def by (induction js arbitrary: q) (simp_all add: processed_addJob)

lemma heldIds_addBulk:
  "set (heldIds (addBulk js q)) = set (map jobId js) \<union> set (heldIds q)"
  unfolding addBulk_def by (induction js arbitrary: q) (auto simp: heldIds_addJob)

lemma distinct_heldIds_addBulk:
  "distinct (heldIds q) \<Longrightarrow> distinct (heldIds (addBulk js q))"
  unfolding addBulk_def by (induction js arbitrary: q) (simp_all add: distinct_heldIds_addJob)

lemma waiting_addBulk_subset:
  "set (waiting (addBulk js q)) \<subseteq> set js \<union> set (waiting q)"
  unfolding addBulk_def
proof (induction js arbitrary: q)
  case Nil
  then show ?case by simp
next
  case (Cons j js)
  from Cons.IH [of "addJob q j"] waiting_addJob_subset [of q j]
  show ?case by auto
qed

lemma waiting_addBulk_held:
  "c \<in> set (heldIds q) \<Longrightarrow>
     filter (\<lambda>j. jobId j = c) (waiting (addBulk js q)) = filter (\<lambda>j. jobId j = c) (waiting q)"
  unfolding addBulk_def
proof (induction js arbitrary: q)
  case Nil
  then show ?case by simp
next
  case (Cons j js)
  from Cons.prems have "c \<in> set (heldIds (addJob q j))"
    by (simp add: heldIds_addJob)
  from Cons.IH [OF this] Cons.prems show ?case
    by (simp add: waiting_addJob_held)
qed

lemma distinct_heldIds_takeNext:
  "distinct (heldIds q) \<Longrightarrow> distinct (heldIds (takeNext q))"
  by (auto simp: takeNext_def heldIds_def split: list.splits)

lemma distinct_heldIds_runQueue:
  "distinct (heldIds q) \<Longrightarrow> distinct (heldIds (runQueue ops q))"
proof (induction ops q rule: runQueue.induct)
  case (1 q)
  then show ?case by simp
next
  case (2 orderInfos ops q)
  then show ?case by (simp add: addToQueue_def distinct_heldIds_addBulk)
next
  case (3 ops q)
  then show ?case by (simp add: distinct_heldIds_takeNext)
qed

lemma distinct_map_filter_le_one:
  "distinct (map f xs) \<Longrightarrow> length (filter (\<lambda>x. f x = c) xs) \<le> 1"
proof (induction xs)
  case Nil
  then show ?case by simp
next
  case (Cons x xs)
  show ?case
  proof (cases "f x = c")
    case True
    with Cons.prems have "\<forall>y \<in> set xs. f y \<noteq> c" by (auto simp: image_iff)
    then have "filter (\<lambda>x. f x = c) xs = []" by (simp add: filter_empty_conv)
    with True show ?thesis by simp
  next
    case False
    with Cons show ?thesis by simp
  qed
qed

lemma length_HashZero: "length HashZero = 66"
  by (simp add: HashZero_def)

text \<open>
  C1. \<open>addToQueue\<close> drops the order infos whose id is the all-zero hash: every job it
  adds to the waiting jobs comes from an order info of the list whose id is not the
  all-zero hash and has that info's context as its job id; and the context of every
  remaining order info is held by the queue afterwards. While the queue holds a job with
  a context, submitting that context again adds no waiting job with it and changes no
  processed job. Hence, in every run of submissions and worker steps that starts from
  the empty queue, at most one job with a given context is ever taken by a worker,
  however often the context is submitted.
\<close>

theorem addToQueue_context_is_job_identity:
  "(\<forall>j \<in> set (waiting (addToQueue orderInfos q)) - set (waiting q).
       info_id (job_data j) \<noteq> Some HashZero
     \<and> jobId j = info_context (job_data j)
     \<and> job_data j \<in> set orderInfos)
   \<and> (\<forall>orderInfo \<in> set orderInfos.
         info_id orderInfo \<noteq> Some HashZero
         \<longrightarrow> info_context orderInfo \<in> set (heldIds (addToQueue orderInfos q)))
   \<and> (c \<in> set (heldIds q)
        \<longrightarrow> filter (\<lambda>j. jobId j = c) (waiting (addToQueue orderInfos q)) =
              filter (\<lambda>j. jobId j = c) (waiting q)
          \<and> processed (addToQueue orderInfos q) = processed q)
   \<and> length (filter (\<lambda>j. jobId j = c) (processed (runQueue ops emptyQueue))) \<le> 1"
proof -
  let ?js = "map jobOf (filter (\<lambda>orderInfo. info_id orderInfo \<noteq> Some HashZero) orderInfos)"
  have added: "info_id (job_data j) \<noteq> Some HashZero
     \<and> jobId j = info_context (job_data j)
     \<and> job_data j \<in> set orderInfos"
    if "j \<in> set (waiting (addToQueue orderInfos q)) - set (waiting q)" for j
  proof -
    from that waiting_addBulk_subset [of ?js q] have "j \<in> set ?js"
      by (auto simp: addToQueue_def)
    then obtain orderInfo where "orderInfo \<in> set orderInfos"
      and "info_id orderInfo \<noteq> Some HashZero" and "j = jobOf orderInfo"
      by auto
    then show ?thesis by (simp add: jobOf_def)
  qed
  have held: "info_context orderInfo \<in> set (heldIds (addToQueue orderInfos q))"
    if "orderInfo \<in> set orderInfos" and "info_id orderInfo \<noteq> Some HashZero" for orderInfo
  proof -
    from that have "jobOf orderInfo \<in> set ?js" by simp
    then have "jobId (jobOf orderInfo) \<in> set (map jobId ?js)"
      by (simp only: set_map) (rule imageI)
    then show ?thesis
      by (simp add: addToQueue_def heldIds_addBulk jobOf_def)
  qed
  have coalesced: "filter (\<lambda>j. jobId j = c) (waiting (addToQueue orderInfos q)) =
              filter (\<lambda>j. jobId j = c) (waiting q)
          \<and> processed (addToQueue orderInfos q) = processed q"
    if "c \<in> set (heldIds q)"
    using that by (simp add: addToQueue_def waiting_addBulk_held processed_addBulk)
  have "distinct (heldIds emptyQueue)"
    by (simp add: heldIds_def emptyQueue_def)
  then have "distinct (heldIds (runQueue ops emptyQueue))"
    by (rule distinct_heldIds_runQueue)
  then have "distinct (map jobId (processed (runQueue ops emptyQueue)))"
    by (simp add: heldIds_def)
  then have once: "length (filter (\<lambda>j. jobId j = c) (processed (runQueue ops emptyQueue))) \<le> 1"
    by (rule distinct_map_filter_le_one)
  from added held coalesced once show ?thesis by blast
qed

theorem addToQueue_context_is_job_identity_witness:
  "jobFor ''new-order'' ''0x01'' \<in> set [jobFor ''new-order'' HashZero, jobFor ''new-order'' ''0x01'']
   \<and> info_id (jobFor ''new-order'' ''0x01'') \<noteq> Some HashZero
   \<and> ''new-order-0x01''
       \<in> set (heldIds (addToQueue [jobFor ''new-order'' ''0x01''] emptyQueue))
   \<and> map jobId (waiting (addToQueue
        [jobFor ''new-order'' HashZero, jobFor ''new-order'' ''0x01'']
        (addToQueue [jobFor ''new-order'' ''0x01''] emptyQueue))) = [''new-order-0x01'']
   \<and> map jobId (processed (runQueue
        [Submit [jobFor ''new-order'' ''0x01'', jobFor ''new-order'' ''0x01''], Work,
         Submit [jobFor ''new-order'' ''0x01''], Work] emptyQueue)) = [''new-order-0x01'']
   \<and> length (filter (\<lambda>j. jobId j = ''new-order-0x01'') (processed (runQueue
        [Submit [jobFor ''new-order'' ''0x01'', jobFor ''new-order'' ''0x01''], Work,
         Submit [jobFor ''new-order'' ''0x01''], Work] emptyQueue))) \<le> 1"
proof -
  have ne: "''0x01'' \<noteq> HashZero"
  proof
    assume "''0x01'' = HashZero"
    then have "length ''0x01'' = length HashZero" by (rule arg_cong)
    then show False by (simp add: length_HashZero)
  qed
  have q1: "addToQueue [jobFor ''new-order'' ''0x01''] emptyQueue =
      \<lparr> waiting = [jobOf (jobFor ''new-order'' ''0x01'')], processed = [] \<rparr>"
    using ne by (simp add: addToQueue_def addBulk_def addJob_def heldIds_def emptyQueue_def
        jobFor_def)
  have id1: "jobId (jobOf (jobFor ''new-order'' ''0x01'')) = ''new-order-0x01''"
    by (simp add: jobOf_def jobFor_def)
  have q2: "addToQueue [jobFor ''new-order'' HashZero, jobFor ''new-order'' ''0x01'']
        \<lparr> waiting = [jobOf (jobFor ''new-order'' ''0x01'')], processed = [] \<rparr> =
      \<lparr> waiting = [jobOf (jobFor ''new-order'' ''0x01'')], processed = [] \<rparr>"
    using ne by (simp add: addToQueue_def addBulk_def addJob_def heldIds_def id1;
        simp add: jobFor_def)
  have q3: "addToQueue [jobFor ''new-order'' ''0x01'', jobFor ''new-order'' ''0x01''] emptyQueue =
      \<lparr> waiting = [jobOf (jobFor ''new-order'' ''0x01'')], processed = [] \<rparr>"
    using ne by (simp add: addToQueue_def addBulk_def addJob_def heldIds_def emptyQueue_def id1;
        simp add: jobFor_def)
  have q4: "addToQueue [jobFor ''new-order'' ''0x01'']
        \<lparr> waiting = [], processed = [jobOf (jobFor ''new-order'' ''0x01'')] \<rparr> =
      \<lparr> waiting = [], processed = [jobOf (jobFor ''new-order'' ''0x01'')] \<rparr>"
    using ne by (simp add: addToQueue_def addBulk_def addJob_def heldIds_def id1;
        simp add: jobFor_def)
  have mem: "jobFor ''new-order'' ''0x01''
      \<in> set [jobFor ''new-order'' HashZero, jobFor ''new-order'' ''0x01'']"
    by simp
  have keep: "info_id (jobFor ''new-order'' ''0x01'') \<noteq> Some HashZero"
    using ne by (simp add: jobFor_def)
  have ctx: "info_context (jobFor ''new-order'' ''0x01'') = ''new-order-0x01''"
    by (simp add: jobFor_def)
  from addToQueue_context_is_job_identity
    [of "[jobFor ''new-order'' ''0x01'']" emptyQueue "''new-order-0x01''"
       "[Submit [jobFor ''new-order'' ''0x01'', jobFor ''new-order'' ''0x01''], Work,
         Submit [jobFor ''new-order'' ''0x01''], Work]"]
    keep ctx
  have "''new-order-0x01'' \<in> set (heldIds (addToQueue [jobFor ''new-order'' ''0x01''] emptyQueue))"
    and "length (filter (\<lambda>j. jobId j = ''new-order-0x01'') (processed (runQueue
        [Submit [jobFor ''new-order'' ''0x01'', jobFor ''new-order'' ''0x01''], Work,
         Submit [jobFor ''new-order'' ''0x01''], Work] emptyQueue))) \<le> 1"
    by auto
  with mem keep show ?thesis
    by (simp add: q1 q2 q3 q4 takeNext_def id1)
qed

section \<open>The worker\<close>

lemma resolveOrder_by_id:
  assumes "info_id job = Some i" and "i \<noteq> []" and "storageUp w"
  shows "resolveOrder w job =
           Inr (orders w i, map_option o_side (orders w i), map_option o_tokenSetId (orders w i))"
  using assms by (simp add: resolveOrder_def oneOrNone_def)

lemma logOrderLatency_frame:
  "order_events (logOrderLatency env job order side tokenSetId w) = order_events w"
  "activityQueue (logOrderLatency env job order side tokenSetId w) = activityQueue w"
  by (simp_all add: logOrderLatency_def split: option.splits sum.splits)

lemma recomputeCaches_frame:
  "order_events (recomputeCaches tr sd ts w) = order_events w"
  "activityQueue (recomputeCaches tr sd ts w) = activityQueue w"
  "latencyLogs (recomputeCaches tr sd ts w) = latencyLogs w"
  by (simp_all add: recomputeCaches_def split: order_side.splits)

lemma order_events_recordOrder:
  "order_events (recordOrder env now tr ord w) =
     order_events w @ (case o_side ord of Sell \<Rightarrow> [orderEventOf env tr ord] | Buy \<Rightarrow> [])"
  by (simp add: recordOrder_def Let_def split: order_side.splits option.splits)

lemma activityQueue_recordOrder:
  "activityQueue (recordOrder env now tr ord w) =
     activityQueue w @ (case activityEventOf env now tr ord of None \<Rightarrow> [] | Some e \<Rightarrow> [ [e] ])"
  by (simp add: recordOrder_def Let_def split: order_side.splits option.splits)

lemma latencyLogs_recordOrder:
  "latencyLogs (recordOrder env now tr ord w) = latencyLogs w"
  by (simp add: recordOrder_def Let_def split: order_side.splits option.splits)

lemma worker_loaded:
  assumes "info_id job = Some i" and "i \<noteq> []" and "storageUp w" and "orders w i = Some ord"
  shows "worker env now job w =
           Inr (logOrderLatency env job (Some ord) (Some (o_side ord)) (Some (o_tokenSetId ord))
                  (if o_tokenSetId ord = [] then w
                   else recordOrder env now (info_trigger job) ord
                          (recomputeCaches (info_trigger job) (o_side ord) (o_tokenSetId ord) w)))"
  using assms by (simp add: worker_def resolveOrder_by_id Let_def)

lemma orderEventStatus_spec:
  "orderEventStatus f a = specOrderEventStatus f a"
  by (simp add: orderEventStatus_def specOrderEventStatus_def)

lemma example_loaded:
  "info_id (jobFor k ''0x01'') = Some ''0x01''"
  "storageUp (worldWith ord)"
  "o_id ord = ''0x01'' \<Longrightarrow> orders (worldWith ord) ''0x01'' = Some ord"
  "info_trigger (jobFor k i) = triggerOf k"
  "kind (triggerOf k) = k"
  by (simp_all add: jobFor_def worldWith_def triggerOf_def)

text \<open>
  C2. When the job's order id resolves to a stored sell order, the job completes and the
  rows it appends to the order-events ledger are the one row built from the order (none
  when the order's token-set id is the empty string, which the \<^verbatim>\<open>side && tokenSetId\<close>
  guard skips). The status of that row is the status of the specification's table:
  filled, cancelled or expired when the fillability is that; inactive when the
  fillability is no-balance or the approval is no-approval; otherwise active. In
  particular no-balance with approved gives inactive, and fillable with approved gives
  active.
\<close>

theorem worker_order_event_status:
  assumes "info_id job = Some i" and "i \<noteq> []" and "storageUp w" and "orders w i = Some ord"
    and "o_side ord = Sell"
  shows "\<exists>w'. worker env now job w = Inr w'
           \<and> order_events w' =
               order_events w @
                 (if o_tokenSetId ord = [] then []
                  else [orderEventOf env (info_trigger job) ord])
           \<and> oe_status (orderEventOf env (info_trigger job) ord) =
               specOrderEventStatus (o_fillabilityStatus ord) (o_approvalStatus ord)
           \<and> (o_fillabilityStatus ord = ''no-balance'' \<and> o_approvalStatus ord = ''approved''
                \<longrightarrow> oe_status (orderEventOf env (info_trigger job) ord) = Inactive)
           \<and> (o_fillabilityStatus ord = ''fillable'' \<and> o_approvalStatus ord = ''approved''
                \<longrightarrow> oe_status (orderEventOf env (info_trigger job) ord) = Active)"
proof -
  have st: "oe_status (orderEventOf env (info_trigger job) ord) =
      specOrderEventStatus (o_fillabilityStatus ord) (o_approvalStatus ord)"
    by (simp add: orderEventOf_def orderEventStatus_spec)
  have ev: "order_events (logOrderLatency env job (Some ord) (Some (o_side ord))
                (Some (o_tokenSetId ord))
                  (if o_tokenSetId ord = [] then w
                   else recordOrder env now (info_trigger job) ord
                          (recomputeCaches (info_trigger job) (o_side ord) (o_tokenSetId ord) w))) =
      order_events w @
                 (if o_tokenSetId ord = [] then []
                  else [orderEventOf env (info_trigger job) ord])"
    using assms(5)
    by (simp add: logOrderLatency_frame order_events_recordOrder recomputeCaches_frame)
  show ?thesis
    unfolding worker_loaded [OF assms(1-4)]
    using st ev by (simp add: specOrderEventStatus_def)
qed

theorem worker_order_event_status_witness:
  "info_id (jobFor ''new-order'' ''0x01'') = Some ''0x01''
   \<and> ''0x01'' \<noteq> []
   \<and> storageUp (worldWith scheduledOrder)
   \<and> orders (worldWith scheduledOrder) ''0x01'' = Some scheduledOrder
   \<and> o_side scheduledOrder = Sell
   \<and> map_sum (\<lambda>e. e) (\<lambda>w'. map oe_status (order_events w'))
       (worker exampleEnv 1685577601000 (jobFor ''new-order'' ''0x01'')
          (worldWith scheduledOrder)) = Inr [Active]
   \<and> map_sum (\<lambda>e. e) (\<lambda>w'. map oe_status (order_events w'))
       (worker exampleEnv 1685577601000 (jobFor ''new-order'' ''0x01'')
          (worldWith (scheduledOrder\<lparr> o_fillabilityStatus := ''no-balance'' \<rparr>))) =
       Inr [Inactive]"
proof -
  let ?job = "jobFor ''new-order'' ''0x01''"
  let ?ord2 = "scheduledOrder\<lparr> o_fillabilityStatus := ''no-balance'' \<rparr>"
  have ids: "o_id scheduledOrder = ''0x01''" "o_id ?ord2 = ''0x01''"
    and sides: "o_side scheduledOrder = Sell" "o_side ?ord2 = Sell"
    by (simp_all add: scheduledOrder_def)
  have vals: "order_events (worldWith scheduledOrder) = []" "order_events (worldWith ?ord2) = []"
    "o_tokenSetId scheduledOrder \<noteq> []" "o_tokenSetId ?ord2 \<noteq> []"
    "o_fillabilityStatus scheduledOrder = ''fillable''"
    "o_approvalStatus scheduledOrder = ''approved''"
    "o_fillabilityStatus ?ord2 = ''no-balance''" "o_approvalStatus ?ord2 = ''approved''"
    by (simp_all add: scheduledOrder_def worldWith_def)
  from worker_order_event_status
    [OF example_loaded(1) _ example_loaded(2) example_loaded(3) sides(1), OF _ ids(1),
      of exampleEnv 1685577601000 "''new-order''"]
  have a: "map_sum (\<lambda>e. e) (\<lambda>w'. map oe_status (order_events w'))
       (worker exampleEnv 1685577601000 ?job (worldWith scheduledOrder)) = Inr [Active]"
    using vals by auto
  from worker_order_event_status
    [OF example_loaded(1) _ example_loaded(2) example_loaded(3) sides(2), OF _ ids(2),
      of exampleEnv 1685577601000 "''new-order''"]
  have b: "map_sum (\<lambda>e. e) (\<lambda>w'. map oe_status (order_events w'))
       (worker exampleEnv 1685577601000 ?job (worldWith ?ord2)) = Inr [Inactive]"
    using vals by auto
  from a b ids sides show ?thesis
    by (simp add: example_loaded)
qed

text \<open>
  C6. When the job's order id resolves to a stored order with a non-empty token-set id,
  the job completes and hands the activity queue: for a cancel trigger exactly one
  cancellation event, \<open>SellOrderCancelled\<close> for a sell order and \<open>BuyOrderCancelled\<close> for
  a buy order, whatever the statuses of the order; for a new-order or reprice trigger
  exactly one creation event, \<open>NewSellOrder\<close> or \<open>NewBuyOrder\<close> by side, when the order
  is fillable and approved, and nothing when it is not; and nothing for every other
  trigger kind. In particular a reprice trigger on a cancelled order emits nothing.
\<close>

theorem worker_activity_events:
  assumes "info_id job = Some i" and "i \<noteq> []" and "storageUp w" and "orders w i = Some ord"
    and "o_tokenSetId ord \<noteq> []"
  shows "\<exists>w'. worker env now job w = Inr w'
     \<and> (kind (info_trigger job) = ''cancel'' \<longrightarrow>
          activityQueue w' = activityQueue w @
            [ [\<lparr> ei_kind = (case o_side ord of Sell \<Rightarrow> SellOrderCancelled
                                            | Buy \<Rightarrow> BuyOrderCancelled),
                 ei_data = eventDataOf env now (info_trigger job) ord
                             (blockHash (info_trigger job)) \<rparr>] ])
     \<and> ((kind (info_trigger job) = ''new-order'' \<or> kind (info_trigger job) = ''reprice'')
          \<and> o_fillabilityStatus ord = ''fillable'' \<and> o_approvalStatus ord = ''approved'' \<longrightarrow>
          activityQueue w' = activityQueue w @
            [ [\<lparr> ei_kind = (case o_side ord of Sell \<Rightarrow> NewSellOrder | Buy \<Rightarrow> NewBuyOrder),
                 ei_data = eventDataOf env now (info_trigger job) ord None \<rparr>] ])
     \<and> ((kind (info_trigger job) = ''new-order'' \<or> kind (info_trigger job) = ''reprice'')
          \<and> \<not> (o_fillabilityStatus ord = ''fillable'' \<and> o_approvalStatus ord = ''approved'') \<longrightarrow>
          activityQueue w' = activityQueue w)
     \<and> (kind (info_trigger job) \<noteq> ''cancel'' \<and> kind (info_trigger job) \<noteq> ''new-order''
          \<and> kind (info_trigger job) \<noteq> ''reprice'' \<longrightarrow>
          activityQueue w' = activityQueue w)
     \<and> (kind (info_trigger job) = ''reprice'' \<and> o_fillabilityStatus ord = ''cancelled'' \<longrightarrow>
          activityQueue w' = activityQueue w)"
proof -
  let ?tr = "info_trigger job"
  let ?w' = "logOrderLatency env job (Some ord) (Some (o_side ord)) (Some (o_tokenSetId ord))
               (recordOrder env now ?tr ord
                  (recomputeCaches ?tr (o_side ord) (o_tokenSetId ord) w))"
  have run: "worker env now job w = Inr ?w'"
    using worker_loaded [OF assms(1-4)] assms(5) by simp
  have q: "activityQueue ?w' =
      activityQueue w @ (case activityEventOf env now ?tr ord of None \<Rightarrow> [] | Some e \<Rightarrow> [ [e] ])"
    by (simp add: logOrderLatency_frame activityQueue_recordOrder recomputeCaches_frame)
  show ?thesis
    by (rule exI [of _ ?w']) (simp add: run q activityEventOf_def)
qed

theorem worker_activity_events_witness:
  "info_id (jobFor ''cancel'' ''0x01'') = Some ''0x01''
   \<and> ''0x01'' \<noteq> []
   \<and> storageUp (worldWith (scheduledOrder\<lparr> o_fillabilityStatus := ''cancelled'' \<rparr>))
   \<and> orders (worldWith (scheduledOrder\<lparr> o_fillabilityStatus := ''cancelled'' \<rparr>)) ''0x01'' =
       Some (scheduledOrder\<lparr> o_fillabilityStatus := ''cancelled'' \<rparr>)
   \<and> o_tokenSetId (scheduledOrder\<lparr> o_fillabilityStatus := ''cancelled'' \<rparr>) \<noteq> []
   \<and> map_sum (\<lambda>e. e) (\<lambda>w'. map (map ei_kind) (activityQueue w'))
       (worker exampleEnv 1685577601000 (jobFor ''cancel'' ''0x01'')
          (worldWith (scheduledOrder\<lparr> o_fillabilityStatus := ''cancelled'' \<rparr>))) =
       Inr [ [SellOrderCancelled] ]
   \<and> map_sum (\<lambda>e. e) (\<lambda>w'. map (map ei_kind) (activityQueue w'))
       (worker exampleEnv 1685577601000 (jobFor ''reprice'' ''0x01'')
          (worldWith (scheduledOrder\<lparr> o_fillabilityStatus := ''cancelled'' \<rparr>))) = Inr []
   \<and> map_sum (\<lambda>e. e) (\<lambda>w'. map (map ei_kind) (activityQueue w'))
       (worker exampleEnv 1685577601000 (jobFor ''new-order'' ''0x01'')
          (worldWith (scheduledOrder\<lparr> o_side := Buy \<rparr>))) = Inr [ [NewBuyOrder] ]"
proof -
  let ?ord1 = "scheduledOrder\<lparr> o_fillabilityStatus := ''cancelled'' \<rparr>"
  let ?ord2 = "scheduledOrder\<lparr> o_side := Buy \<rparr>"
  have ids: "o_id ?ord1 = ''0x01''" "o_id ?ord2 = ''0x01''"
    and ts: "o_tokenSetId ?ord1 \<noteq> []" "o_tokenSetId ?ord2 \<noteq> []"
    by (simp_all add: scheduledOrder_def)
  have vals: "activityQueue (worldWith ?ord1) = []" "activityQueue (worldWith ?ord2) = []"
    "o_side ?ord1 = Sell" "o_side ?ord2 = Buy"
    "o_fillabilityStatus ?ord1 = ''cancelled''"
    "o_fillabilityStatus ?ord2 = ''fillable''" "o_approvalStatus ?ord2 = ''approved''"
    by (simp_all add: scheduledOrder_def worldWith_def)
  from worker_activity_events
    [OF example_loaded(1) _ example_loaded(2) example_loaded(3) ts(1), OF _ ids(1),
      of exampleEnv 1685577601000 "''cancel''"]
  have a: "map_sum (\<lambda>e. e) (\<lambda>w'. map (map ei_kind) (activityQueue w'))
       (worker exampleEnv 1685577601000 (jobFor ''cancel'' ''0x01'') (worldWith ?ord1)) =
       Inr [ [SellOrderCancelled] ]"
    using vals by (auto simp: example_loaded)
  from worker_activity_events
    [OF example_loaded(1) _ example_loaded(2) example_loaded(3) ts(1), OF _ ids(1),
      of exampleEnv 1685577601000 "''reprice''"]
  have b: "map_sum (\<lambda>e. e) (\<lambda>w'. map (map ei_kind) (activityQueue w'))
       (worker exampleEnv 1685577601000 (jobFor ''reprice'' ''0x01'') (worldWith ?ord1)) =
       Inr []"
    using vals by (auto simp: example_loaded)
  from worker_activity_events
    [OF example_loaded(1) _ example_loaded(2) example_loaded(3) ts(2), OF _ ids(2),
      of exampleEnv 1685577601000 "''new-order''"]
  have c: "map_sum (\<lambda>e. e) (\<lambda>w'. map (map ei_kind) (activityQueue w'))
       (worker exampleEnv 1685577601000 (jobFor ''new-order'' ''0x01'') (worldWith ?ord2)) =
       Inr [ [NewBuyOrder] ]"
    using vals by (auto simp: example_loaded)
  from a b c ids ts show ?thesis
    by (simp add: example_loaded)
qed

text \<open>
  C7. When the job carries a non-empty order id, the storage answers and has no row for
  it, the job completes and the world after it is the world before it: nothing is
  enqueued for recomputation, no ledger row is appended, no activity or websocket event
  is emitted and nothing is logged. A job that completes without a loaded order and
  changes anything carries no order id and carries both a side and a non-empty token-set
  id of its own, which are the ones it works with.
\<close>

theorem worker_order_not_found:
  "(info_id job = Some i \<and> i \<noteq> [] \<and> storageUp w \<and> orders w i = None
      \<longrightarrow> worker env now job w = Inr w)
   \<and> (resolveOrder w job = Inr (None, sd, ts) \<and> worker env now job w = Inr w' \<and> w' \<noteq> w
      \<longrightarrow> \<not> truthy (info_id job) \<and> info_side job = sd \<and> sd \<noteq> None
          \<and> info_tokenSetId job = ts \<and> truthy ts)"
proof -
  have noop: "worker env now job w = Inr w"
    if "info_id job = Some i \<and> i \<noteq> [] \<and> storageUp w \<and> orders w i = None"
    using that by (simp add: worker_def resolveOrder_by_id logOrderLatency_def)
  have explicit: "\<not> truthy (info_id job) \<and> info_side job = sd \<and> sd \<noteq> None
          \<and> info_tokenSetId job = ts \<and> truthy ts"
    if h: "resolveOrder w job = Inr (None, sd, ts) \<and> worker env now job w = Inr w' \<and> w' \<noteq> w"
  proof -
    from h have changed: "sd \<noteq> None \<and> truthy ts"
      by (auto simp: worker_def truthy_def Let_def logOrderLatency_def
          split: option.splits if_splits)
    have "\<not> truthy (info_id job) \<and> info_side job = sd \<and> info_tokenSetId job = ts"
    proof (cases "truthy (info_id job)")
      case True
      then obtain i' where "info_id job = Some i'" and "i' \<noteq> []"
        by (auto simp: truthy_def split: option.splits)
      with h have "sd = None"
        by (auto simp: resolveOrder_def split: sum.splits)
      with changed show ?thesis by simp
    next
      case False
      with h show ?thesis
        by (auto simp: resolveOrder_def truthy_def split: option.splits if_splits)
    qed
    with changed show ?thesis by simp
  qed
  from noop explicit show ?thesis by blast
qed

theorem worker_order_not_found_witness:
  "info_id (jobFor ''new-order'' ''0x02'') = Some ''0x02''
   \<and> ''0x02'' \<noteq> []
   \<and> storageUp (worldWith scheduledOrder)
   \<and> orders (worldWith scheduledOrder) ''0x02'' = None
   \<and> worker exampleEnv 1685577601000 (jobFor ''new-order'' ''0x02'') (worldWith scheduledOrder) =
       Inr (worldWith scheduledOrder)
   \<and> resolveOrder (worldWith scheduledOrder) revalidationJob =
       Inr (None, Some Sell, Some ''token:0xabc:1'')
   \<and> worker exampleEnv 1685577601000 revalidationJob (worldWith scheduledOrder) =
       Inr (recomputeCaches (triggerOf ''revalidation'') Sell ''token:0xabc:1''
              (worldWith scheduledOrder))
   \<and> recomputeCaches (triggerOf ''revalidation'') Sell ''token:0xabc:1''
       (worldWith scheduledOrder) \<noteq> worldWith scheduledOrder
   \<and> \<not> truthy (info_id revalidationJob)
   \<and> truthy (info_tokenSetId revalidationJob)"
proof -
  let ?w = "worldWith scheduledOrder"
  let ?w' = "recomputeCaches (triggerOf ''revalidation'') Sell ''token:0xabc:1'' ?w"
  have h1: "info_id (jobFor ''new-order'' ''0x02'') = Some ''0x02'' \<and> ''0x02'' \<noteq> []
      \<and> storageUp ?w \<and> orders ?w ''0x02'' = None"
    by (simp add: jobFor_def worldWith_def scheduledOrder_def)
  have r: "resolveOrder ?w revalidationJob = Inr (None, Some Sell, Some ''token:0xabc:1'')"
    by (simp add: resolveOrder_def revalidationJob_def)
  have run: "worker exampleEnv 1685577601000 revalidationJob ?w = Inr ?w'"
    by (simp add: worker_def r Let_def logOrderLatency_def) (simp add: revalidationJob_def)
  have "floorAskQueue ?w' \<noteq> floorAskQueue ?w"
    by (simp add: recomputeCaches_def worldWith_def)
  then have ne: "?w' \<noteq> ?w" by auto
  from worker_order_not_found
    [where job = "jobFor ''new-order'' ''0x02''" and i = "''0x02''" and w = ?w
       and env = exampleEnv and now = 1685577601000]
    h1
  have a: "worker exampleEnv 1685577601000 (jobFor ''new-order'' ''0x02'') ?w = Inr ?w"
    by blast
  from worker_order_not_found
    [where job = revalidationJob and w = ?w and env = exampleEnv and now = 1685577601000
       and sd = "Some Sell" and ts = "Some ''token:0xabc:1''" and w' = ?w' and i = "[]"]
    r run ne
  have b: "\<not> truthy (info_id revalidationJob) \<and> truthy (info_tokenSetId revalidationJob)"
    by auto
  from h1 a r run ne b show ?thesis by simp
qed

lemma latencyLogs_logOrderLatency:
  assumes "o_validBetween ord = Some vb" and "vb \<noteq> []"
    and "kind (info_trigger job) = ''new-order''"
  shows "latencyLogs (logOrderLatency env job (Some ord) side tokenSetId w) =
           latencyLogs w @
             (case orderLatency env job ord vb side tokenSetId of
                Inl e \<Rightarrow> [] | Inr None \<Rightarrow> [] | Inr (Some l) \<Rightarrow> [l])"
  using assms by (simp add: logOrderLatency_def split: sum.splits option.splits)

lemma orderLatency_logged:
  assumes "validFromMs env vb = Inr (Some vf)"
    and "sourceTitle env (o_sourceIdInt ord) = Inr src"
    and "(case o_originatedAt ord of Some d \<Rightarrow> d | None \<Rightarrow> vf) div 1000 \<le> o_createdAt ord div 1000"
  shows "\<exists>l. orderLatency env job ord vb side tokenSetId = Inr (Some l)
           \<and> ll_latency l = o_createdAt ord div 1000
                              - (case o_originatedAt ord of Some d \<Rightarrow> d | None \<Rightarrow> vf) div 1000
           \<and> ll_source l = src
           \<and> ll_orderType l = orderTypeOf side tokenSetId"
  using assms by (cases "o_originatedAt ord") (simp_all add: orderLatency_def Let_def)

lemma orderLatency_start_after_creation:
  assumes "validFromMs env vb = Inr (Some vf)"
    and "sourceTitle env (o_sourceIdInt ord) = Inr src"
    and "o_createdAt ord div 1000 < (case o_originatedAt ord of Some d \<Rightarrow> d | None \<Rightarrow> vf) div 1000"
  shows "orderLatency env job ord vb side tokenSetId = Inr None"
  using assms by (cases "o_originatedAt ord") (simp_all add: orderLatency_def Let_def)

lemma orderLatency_failure:
  assumes "isl (validFromMs env vb) \<or> validFromMs env vb = Inr None
         \<or> isl (sourceTitle env (o_sourceIdInt ord))"
  shows "orderLatency env job ord vb side tokenSetId \<noteq> Inr (Some l)"
  using assms
  by (auto simp: orderLatency_def Let_def isl_def split: option.splits sum.splits if_splits)

text \<open>
  C8, as amended. When the job's order id resolves to a stored order with a non-empty
  validity window and the trigger is new-order, the job completes, whatever the parsing
  of the window and the lookup of the source do. When the window parses to a valid date
  and the source lookup returns, then, with the start being the order's originatedAt if
  set and the start of the window otherwise, both in whole seconds: if the start is not
  later than the creation time, exactly one latency entry is logged, whose latency is
  the creation time minus the start, with the title of the source and the order type
  (listing for a sell order, otherwise token_offer, attribute_offer or collection_offer
  by the prefix of the token-set id); if the start is later than the creation time,
  nothing is logged. When parsing the window throws or gives an invalid date, or the
  source lookup throws, nothing is logged and the job still completes.
\<close>

theorem worker_order_latency:
  assumes "info_id job = Some i" and "i \<noteq> []" and "storageUp w" and "orders w i = Some ord"
    and "o_validBetween ord = Some vb" and "vb \<noteq> []"
    and "kind (info_trigger job) = ''new-order''"
  shows "\<exists>w'. worker env now job w = Inr w'
     \<and> (\<forall>vf src. validFromMs env vb = Inr (Some vf)
                  \<and> sourceTitle env (o_sourceIdInt ord) = Inr src \<longrightarrow>
          ((case o_originatedAt ord of Some d \<Rightarrow> d | None \<Rightarrow> vf) div 1000
              \<le> o_createdAt ord div 1000 \<longrightarrow>
            (\<exists>l. latencyLogs w' = latencyLogs w @ [l]
                \<and> ll_latency l =
                    o_createdAt ord div 1000
                    - (case o_originatedAt ord of Some d \<Rightarrow> d | None \<Rightarrow> vf) div 1000
                \<and> ll_source l = src
                \<and> ll_orderType l =
                    (if o_side ord = Sell then ''listing''
                     else if startsWith (o_tokenSetId ord) ''token'' then ''token_offer''
                     else if startsWith (o_tokenSetId ord) ''list'' then ''attribute_offer''
                     else ''collection_offer'')))
          \<and> (o_createdAt ord div 1000
               < (case o_originatedAt ord of Some d \<Rightarrow> d | None \<Rightarrow> vf) div 1000 \<longrightarrow>
             latencyLogs w' = latencyLogs w))
     \<and> (isl (validFromMs env vb) \<or> validFromMs env vb = Inr None
          \<or> isl (sourceTitle env (o_sourceIdInt ord)) \<longrightarrow>
        latencyLogs w' = latencyLogs w)"
proof -
  let ?side = "Some (o_side ord)" and ?ts = "Some (o_tokenSetId ord)"
  let ?w1 = "if o_tokenSetId ord = [] then w
             else recordOrder env now (info_trigger job) ord
                    (recomputeCaches (info_trigger job) (o_side ord) (o_tokenSetId ord) w)"
  let ?w' = "logOrderLatency env job (Some ord) ?side ?ts ?w1"
  have run: "worker env now job w = Inr ?w'"
    by (rule worker_loaded [OF assms(1-4)])
  have "latencyLogs ?w1 = latencyLogs w"
    by (simp add: latencyLogs_recordOrder recomputeCaches_frame)
  with latencyLogs_logOrderLatency [OF assms(5-7), of env ?side ?ts ?w1]
  have logs: "latencyLogs ?w' = latencyLogs w @
             (case orderLatency env job ord vb ?side ?ts of
                Inl e \<Rightarrow> [] | Inr None \<Rightarrow> [] | Inr (Some l) \<Rightarrow> [l])"
    by simp
  have ty: "orderTypeOf ?side ?ts =
      (if o_side ord = Sell then ''listing''
       else if startsWith (o_tokenSetId ord) ''token'' then ''token_offer''
       else if startsWith (o_tokenSetId ord) ''list'' then ''attribute_offer''
       else ''collection_offer'')"
    by (simp add: orderTypeOf_def)
  have logged: "\<exists>l. latencyLogs ?w' = latencyLogs w @ [l]
                \<and> ll_latency l =
                    o_createdAt ord div 1000
                    - (case o_originatedAt ord of Some d \<Rightarrow> d | None \<Rightarrow> vf) div 1000
                \<and> ll_source l = src
                \<and> ll_orderType l =
                    (if o_side ord = Sell then ''listing''
                     else if startsWith (o_tokenSetId ord) ''token'' then ''token_offer''
                     else if startsWith (o_tokenSetId ord) ''list'' then ''attribute_offer''
                     else ''collection_offer'')"
    if "validFromMs env vb = Inr (Some vf)" and "sourceTitle env (o_sourceIdInt ord) = Inr src"
      and "(case o_originatedAt ord of Some d \<Rightarrow> d | None \<Rightarrow> vf) div 1000
              \<le> o_createdAt ord div 1000" for vf src
  proof -
    from orderLatency_logged [OF that, of job ?side ?ts] obtain l where
      "orderLatency env job ord vb ?side ?ts = Inr (Some l)"
      and "ll_latency l = o_createdAt ord div 1000
                              - (case o_originatedAt ord of Some d \<Rightarrow> d | None \<Rightarrow> vf) div 1000"
      and "ll_source l = src" and "ll_orderType l = orderTypeOf ?side ?ts"
      by blast
    with logs ty show ?thesis by simp
  qed
  have skipped: "latencyLogs ?w' = latencyLogs w"
    if "validFromMs env vb = Inr (Some vf)" and "sourceTitle env (o_sourceIdInt ord) = Inr src"
      and "o_createdAt ord div 1000
               < (case o_originatedAt ord of Some d \<Rightarrow> d | None \<Rightarrow> vf) div 1000" for vf src
    using logs orderLatency_start_after_creation [OF that, of job ?side ?ts] by simp
  have swallowed: "latencyLogs ?w' = latencyLogs w"
    if "isl (validFromMs env vb) \<or> validFromMs env vb = Inr None
          \<or> isl (sourceTitle env (o_sourceIdInt ord))"
    using logs orderLatency_failure [OF that, of job ?side ?ts]
    by (simp split: sum.splits option.splits)
  show ?thesis
    unfolding run using logged skipped swallowed by blast
qed

theorem worker_order_latency_witness:
  "info_id (jobFor ''new-order'' ''0x01'') = Some ''0x01''
   \<and> ''0x01'' \<noteq> []
   \<and> storageUp (worldWith (scheduledOrder\<lparr> o_createdAt := 1685577615000 \<rparr>))
   \<and> orders (worldWith (scheduledOrder\<lparr> o_createdAt := 1685577615000 \<rparr>)) ''0x01'' =
       Some (scheduledOrder\<lparr> o_createdAt := 1685577615000 \<rparr>)
   \<and> o_validBetween (scheduledOrder\<lparr> o_createdAt := 1685577615000 \<rparr>) = Some scheduledWindow
   \<and> scheduledWindow \<noteq> []
   \<and> kind (info_trigger (jobFor ''new-order'' ''0x01'')) = ''new-order''
   \<and> validFromMs exampleEnv scheduledWindow = Inr (Some 1685577610000)
   \<and> map_sum (\<lambda>e. e) (\<lambda>w'. map (\<lambda>l. (ll_latency l, ll_source l, ll_orderType l)) (latencyLogs w'))
       (worker exampleEnv 1685577616000 (jobFor ''new-order'' ''0x01'')
          (worldWith (scheduledOrder\<lparr> o_createdAt := 1685577615000 \<rparr>))) =
       Inr [(5, Some ''OpenSea'', ''listing'')]"
proof -
  let ?ord = "scheduledOrder\<lparr> o_createdAt := 1685577615000 \<rparr>"
  have facts: "o_id ?ord = ''0x01''" "o_validBetween ?ord = Some scheduledWindow"
    "scheduledWindow \<noteq> []" "validFromMs exampleEnv scheduledWindow = Inr (Some 1685577610000)"
    "sourceTitle exampleEnv (o_sourceIdInt ?ord) = Inr (Some ''OpenSea'')"
    "o_originatedAt ?ord = None" "o_createdAt ?ord = 1685577615000" "o_side ?ord = Sell"
    "latencyLogs (worldWith ?ord) = []"
    by (simp_all add: scheduledOrder_def scheduledWindow_def exampleEnv_def worldWith_def)
  have k: "kind (info_trigger (jobFor ''new-order'' ''0x01'')) = ''new-order''"
    by (simp add: example_loaded)
  from worker_order_latency
    [OF example_loaded(1) _ example_loaded(2) example_loaded(3) facts(2,3) k, OF _ facts(1),
      of exampleEnv 1685577616000]
  have "map_sum (\<lambda>e. e)
       (\<lambda>w'. map (\<lambda>l. (ll_latency l, ll_source l, ll_orderType l)) (latencyLogs w'))
       (worker exampleEnv 1685577616000 (jobFor ''new-order'' ''0x01'') (worldWith ?ord)) =
       Inr [(5, Some ''OpenSea'', ''listing'')]"
    using facts by auto
  with facts k show ?thesis
    by (simp add: example_loaded)
qed

text \<open>
  C8 as stated fails: the order below is loaded, carries a validity window and the
  trigger is new-order, but its validity starts ten seconds after its creation time, and
  the job logs no latency entry.
\<close>

theorem worker_order_latency_counterexample:
  "info_id (jobFor ''new-order'' ''0x01'') = Some ''0x01''
   \<and> storageUp (worldWith scheduledOrder)
   \<and> orders (worldWith scheduledOrder) ''0x01'' = Some scheduledOrder
   \<and> o_validBetween scheduledOrder = Some scheduledWindow
   \<and> scheduledWindow \<noteq> []
   \<and> kind (info_trigger (jobFor ''new-order'' ''0x01'')) = ''new-order''
   \<and> map_sum (\<lambda>e. e) latencyLogs
       (worker exampleEnv 1685577601000 (jobFor ''new-order'' ''0x01'')
          (worldWith scheduledOrder)) = Inr []"
proof -
  let ?job = "jobFor ''new-order'' ''0x01''"
  let ?w = "worldWith scheduledOrder"
  let ?side = "Some (o_side scheduledOrder)" and ?ts = "Some (o_tokenSetId scheduledOrder)"
  let ?w1 = "recordOrder exampleEnv 1685577601000 (info_trigger ?job) scheduledOrder
               (recomputeCaches (info_trigger ?job) (o_side scheduledOrder)
                  (o_tokenSetId scheduledOrder) ?w)"
  have facts: "info_id ?job = Some ''0x01''" "storageUp ?w"
    "orders ?w ''0x01'' = Some scheduledOrder"
    "o_validBetween scheduledOrder = Some scheduledWindow" "scheduledWindow \<noteq> []"
    "kind (info_trigger ?job) = ''new-order''"
    by (simp_all add: jobFor_def triggerOf_def worldWith_def scheduledOrder_def
        scheduledWindow_def)
  have "worker exampleEnv 1685577601000 ?job ?w =
      Inr (logOrderLatency exampleEnv ?job (Some scheduledOrder) ?side ?ts
            (if o_tokenSetId scheduledOrder = [] then ?w else ?w1))"
    by (rule worker_loaded [OF facts(1) _ facts(2,3)]) simp
  moreover have "o_tokenSetId scheduledOrder \<noteq> []"
    by (simp add: scheduledOrder_def)
  ultimately have run: "worker exampleEnv 1685577601000 ?job ?w =
      Inr (logOrderLatency exampleEnv ?job (Some scheduledOrder) ?side ?ts ?w1)"
    by simp
  have "orderLatency exampleEnv ?job scheduledOrder scheduledWindow ?side ?ts = Inr None"
    by (rule orderLatency_start_after_creation
          [where vf = 1685577610000 and src = "Some ''OpenSea''"])
       (simp_all add: exampleEnv_def scheduledOrder_def)
  then have "latencyLogs (logOrderLatency exampleEnv ?job (Some scheduledOrder)
                ?side ?ts ?w1) = latencyLogs ?w1"
    by (simp add: latencyLogs_logOrderLatency [OF facts(4-6)])
  also have "\<dots> = []"
    by (simp add: latencyLogs_recordOrder recomputeCaches_frame worldWith_def)
  finally show ?thesis
    using facts run by simp
qed

end
